theory Spec2Isabelle
  imports Complex_Main "HOL-Library.AList"
begin

section \<open>Python values\<close>

text \<open>
  Prices, quantities and cash amounts are Python floats in the scripts. They are modelled
  as exact rationals: every comparison and every division below is the exact one.
  Exceptions are values of \<open>py_error\<close>; a function that may raise returns
  \<open>py_error + 'a\<close> with \<open>Inl\<close> for the exception.
\<close>

datatype py_error =
    FileNotFoundError
  | JSONDecodeError
  | ZeroDivisionError
  | ValueError
  | TypeError
  | NameError
  | KeyError
  | APIError

text \<open>
  The built-in \<open>round(x, ndigits)\<close>: the nearest multiple of \<open>10 ^ -ndigits\<close>, a tie
  going to the even neighbour.
\<close>

definition py_round :: "rat \<Rightarrow> nat \<Rightarrow> rat" where
  "py_round x ndigits =
     (let s = 10 ^ ndigits;
          y = x * s;
          f = \<lfloor>y\<rfloor>;
          r = y - of_int f
      in of_int (if r < 1 / 2 then f
                 else if 1 / 2 < r then f + 1
                 else if even f then f else f + 1) / s)"

text \<open>
  Truthiness of a price that may be \<open>None\<close>: \<open>not price\<close> holds for \<open>None\<close> and for
  zero.
\<close>

definition falsy :: "rat option \<Rightarrow> bool" where
  "falsy v = (case v of None \<Rightarrow> True | Some x \<Rightarrow> x = 0)"

section \<open>Simple moving averages\<close>

text \<open>
  The slice \<open>prices[-window:]\<close>: the whole list when \<open>window\<close> is zero (\<open>-0\<close> is
  \<open>0\<close>) or exceeds the length, the last \<open>window\<close> elements otherwise.
\<close>

definition slice_last :: "'a list \<Rightarrow> nat \<Rightarrow> 'a list" where
  "slice_last xs window = (if window = 0 then xs else drop (length xs - window) xs)"

text \<open>
  \<open>calculate_sma\<close> of 2paper.py.
  \<^verbatim>\<open>
  def calculate_sma(prices, window):
      if len(prices) < window:
          return None
      return sum(prices[-window:]) / window
  \<close>
\<close>

definition calculate_sma :: "rat list \<Rightarrow> nat \<Rightarrow> py_error + rat option" where
  "calculate_sma prices window =
     (if length prices < window then Inr None
      else if window = 0 then Inl ZeroDivisionError
      else Inr (Some (sum_list (slice_last prices window) / of_nat window)))"

text \<open>
  The inline averages of 2lioneheart.py.
  \<^verbatim>\<open>
  short_sma = sum(prices[-10:]) / 10 if len(prices) >= 10 else None
  long_sma = sum(prices[-50:]) / 50 if len(prices) >= 50 else None
  \<close>
\<close>

definition short_sma_lh :: "rat list \<Rightarrow> rat option" where
  "short_sma_lh prices =
     (if 10 \<le> length prices then Some (sum_list (slice_last prices 10) / 10) else None)"

definition long_sma_lh :: "rat list \<Rightarrow> rat option" where
  "long_sma_lh prices =
     (if 50 \<le> length prices then Some (sum_list (slice_last prices 50) / 50) else None)"

section \<open>Exceptions and loops over assets\<close>

text \<open>
  Sequencing of statements that may raise: the first exception ends the computation.
\<close>

definition then_do :: "'e + 'a \<Rightarrow> ('a \<Rightarrow> 'e + 'b) \<Rightarrow> 'e + 'b" where
  "then_do r k = (case r of Inl e \<Rightarrow> Inl e | Inr v \<Rightarrow> k v)"

text \<open>
  A \<open>for\<close> loop whose body may raise. The body works on the loop state; an exception
  leaves the loop with the state reached so far.
\<close>

fun for_each :: "('a \<Rightarrow> 's \<Rightarrow> py_error + 's) \<Rightarrow> 'a list \<Rightarrow> 's \<Rightarrow> (py_error \<times> 's) + 's" where
  "for_each body [] s = Inr s"
| "for_each body (x # xs) s =
     (case body x s of Inl e \<Rightarrow> Inl (e, s) | Inr s' \<Rightarrow> for_each body xs s')"

section \<open>State snapshot and state file\<close>

text \<open>
  A position is the dictionary \<open>{"qty": ..., "entry_price": ...}\<close>; the state is the
  dictionary \<open>{"positions": {symbol: position}}\<close>. Python dictionaries keep insertion
  order and have unique keys, so the positions are an association list handled with
  \<open>map_of\<close>, \<open>AList.update\<close> (replace in place, or append) and \<open>AList.delete\<close>.
\<close>

record position =
  qty :: rat
  entry_price :: rat

record bot_state =
  positions :: "(string \<times> position) list"

text \<open>The state of Lioneheart1.py: \<open>{"invested_assets": {symbol: {"qty", "price"}}}\<close>.\<close>

record invested =
  invested_qty :: rat
  invested_price :: rat

record lh_state =
  invested_assets :: "(string \<times> invested) list"

text \<open>
  The process's view of the outside: the text of the state file (\<open>None\<close> when the file
  does not exist), whether the file can be opened for writing, and the orders the broker
  has accepted, oldest first.
\<close>

datatype order_side = Buy | Sell

datatype tif = IOC | DAY | GTC

record order =
  symbol :: string
  order_qty :: rat
  side :: order_side
  time_in_force :: tif

record world =
  state_file :: "string option"
  writable :: bool
  orders :: "order list"

text \<open>
  \<open>json.load\<close> and \<open>json.dump\<close> belong to the Python library, not to the scripts: they
  are parameters, \<open>json_load\<close> from the text of a file to the decoded state or the
  exception it raises, \<open>json_dump\<close> from a state to its text.

  \<open>load_state\<close> and \<open>save_state\<close> of 2paper.py (2lioneheart.py has the same two
  functions).
  \<^verbatim>\<open>
  def load_state():
      try:
          with open(STATE_FILE, "r") as f:
              state = json.load(f)
              return state
      except FileNotFoundError:
          return {"positions": {}}
      except json.JSONDecodeError:
          return {"positions": {}}

  def save_state(state):
      try:
          with open(STATE_FILE, "w") as f:
              json.dump(state, f, indent=4)
      except Exception as e:
          logger.error(f"Failed to save state: {e}")
  \<close>
\<close>

definition load_state :: "(string \<Rightarrow> py_error + bot_state) \<Rightarrow> world \<Rightarrow> py_error + bot_state" where
  "load_state json_load w =
     (case state_file w of
        None \<Rightarrow> Inr \<lparr>positions = []\<rparr>
      | Some text \<Rightarrow>
          (case json_load text of
             Inr state \<Rightarrow> Inr state
           | Inl FileNotFoundError \<Rightarrow> Inr \<lparr>positions = []\<rparr>
           | Inl JSONDecodeError \<Rightarrow> Inr \<lparr>positions = []\<rparr>
           | Inl e \<Rightarrow> Inl e))"

definition save_state :: "(bot_state \<Rightarrow> string) \<Rightarrow> bot_state \<Rightarrow> world \<Rightarrow> world" where
  "save_state json_dump state w =
     (if writable w then w\<lparr>state_file := Some (json_dump state)\<rparr> else w)"

text \<open>
  \<open>load_state\<close> and \<open>save_state\<close> of Lioneheart1.py (Lioneheart3.py has the same two
  functions).
  \<^verbatim>\<open>
  def save_state(state):
      with open(STATE_FILE, "w") as f:
          json.dump(state, f)

  def load_state():
      try:
          with open(STATE_FILE, "r") as f:
              return json.load(f)
      except FileNotFoundError:
          return {"invested_assets": {}}
  \<close>
\<close>

definition load_state_lh1 :: "(string \<Rightarrow> py_error + lh_state) \<Rightarrow> world \<Rightarrow> py_error + lh_state" where
  "load_state_lh1 json_load w =
     (case state_file w of
        None \<Rightarrow> Inr \<lparr>invested_assets = []\<rparr>
      | Some text \<Rightarrow>
          (case json_load text of
             Inr state \<Rightarrow> Inr state
           | Inl FileNotFoundError \<Rightarrow> Inr \<lparr>invested_assets = []\<rparr>
           | Inl e \<Rightarrow> Inl e))"

section \<open>Broker\<close>

text \<open>
  The broker's answers are parameters. \<open>account_cash\<close> is \<open>float(api.get_account().cash)\<close>,
  \<open>bars\<close> the closing prices of the requested bars, \<open>latest_price\<close> the price field of
  the latest trade or quote (\<open>None\<close> when the answer carries no price), each of them or
  the exception the call raises; \<open>submit_ok\<close> tells whether submitting an order returns
  or raises.
\<close>

record broker =
  account_cash :: "py_error + rat"
  bars :: "string \<Rightarrow> py_error + rat list"
  latest_price :: "string \<Rightarrow> py_error + rat option"
  submit_ok :: "order \<Rightarrow> bool"

definition submit_order :: "broker \<Rightarrow> order \<Rightarrow> world \<Rightarrow> py_error + world" where
  "submit_order api ord w =
     (if submit_ok api ord then Inr (w\<lparr>orders := orders w @ [ord]\<rparr>) else Inl APIError)"

section \<open>The crossover bot of 2paper.py\<close>

definition ASSETS :: "string list" where
  "ASSETS = [''DOGE/USD'', ''BCH/USD'', ''USDT/USD'']"

definition TARGET_ALLOCATION :: rat where
  "TARGET_ALLOCATION = 20"

text \<open>
  \<^verbatim>\<open>
  def fetch_prices(asset):
      try:
          ...
          bars = api.get_crypto_bars(asset, TimeFrame.Minute, start=start_str, end=now_str).df
          return bars['close'].tolist()
      except Exception as e:
          return []
  \<close>
\<close>

definition fetch_prices :: "broker \<Rightarrow> string \<Rightarrow> rat list" where
  "fetch_prices api asset = (case bars api asset of Inl e \<Rightarrow> [] | Inr closes \<Rightarrow> closes)"

datatype decision = BUY | SELL | HOLD

text \<open>
  The branch that the body of the loop over \<open>ASSETS\<close> takes for one asset, named by the
  trade it starts: the three \<open>continue\<close> statements and the final \<open>else\<close> are \<open>HOLD\<close>.
  \<open>held\<close> is \<open>asset in state.get("positions", {})\<close>.
  \<^verbatim>\<open>
  if not prices:
      continue
  short_sma = calculate_sma(prices, 10)
  long_sma = calculate_sma(prices, 50)
  if not short_sma or not long_sma:
      continue
  if cash < TARGET_ALLOCATION:
      continue
  if short_sma > long_sma and asset not in state.get("positions", {}):
      ...
  elif short_sma < long_sma and asset in state.get("positions", {}):
      ...
  else:
      ...
  \<close>
\<close>

definition signal :: "rat list \<Rightarrow> rat \<Rightarrow> bool \<Rightarrow> py_error + decision" where
  "signal prices cash held =
     (if prices = [] then Inr HOLD
      else
        then_do (calculate_sma prices 10) (\<lambda>short_sma.
        then_do (calculate_sma prices 50) (\<lambda>long_sma.
          if falsy short_sma \<or> falsy long_sma then Inr HOLD
          else if cash < TARGET_ALLOCATION then Inr HOLD
          else if the short_sma > the long_sma \<and> \<not> held then Inr BUY
          else if the short_sma < the long_sma \<and> held then Inr SELL
          else Inr HOLD)))"

text \<open>
  The body of the loop for one asset, on the loop state (state, cash, world).
  \<^verbatim>\<open>
  if short_sma > long_sma and asset not in state.get("positions", {}):
      qty = round(cash / prices[-1], 4) if cash < TARGET_ALLOCATION else round(TARGET_ALLOCATION / prices[-1], 4)
      try:
          api.submit_order(symbol=asset, qty=qty, side="buy", type="market", time_in_force="gtc")
          state["positions"][asset] = {"qty": qty, "entry_price": prices[-1]}
          save_state(state)
          cash -= qty * prices[-1]
      except Exception as e:
          logger.error(f"Failed to buy {asset}: {e}")
  elif short_sma < long_sma and asset in state.get("positions", {}):
      position = state["positions"].pop(asset)
      qty = position["qty"]
      try:
          api.submit_order(symbol=asset, qty=qty, side="sell", type="market", time_in_force="gtc")
          save_state(state)
      except Exception as e:
          logger.error(f"Failed to sell {asset}: {e}")
  \<close>
\<close>

definition trade_asset ::
  "(bot_state \<Rightarrow> string) \<Rightarrow> broker \<Rightarrow> string \<Rightarrow> bot_state \<times> rat \<times> world
     \<Rightarrow> py_error + bot_state \<times> rat \<times> world" where
  "trade_asset json_dump api asset = (\<lambda>(state, cash, w).
     let prices = fetch_prices api asset in
     then_do (signal prices cash (map_of (positions state) asset \<noteq> None)) (\<lambda>d.
       case d of
         HOLD \<Rightarrow> Inr (state, cash, w)
       | BUY \<Rightarrow>
           if last prices = 0 then Inl ZeroDivisionError
           else
             let q = (if cash < TARGET_ALLOCATION then py_round (cash / last prices) 4
                      else py_round (TARGET_ALLOCATION / last prices) 4);
                 ord = \<lparr>symbol = asset, order_qty = q, side = Buy, time_in_force = GTC\<rparr>
             in (case submit_order api ord w of
                   Inl e \<Rightarrow> Inr (state, cash, w)
                 | Inr w' \<Rightarrow>
                     let state' = state\<lparr>positions :=
                           AList.update asset \<lparr>qty = q, entry_price = last prices\<rparr> (positions state)\<rparr>
                     in Inr (state', cash - q * last prices, save_state json_dump state' w'))
       | SELL \<Rightarrow>
           (case map_of (positions state) asset of
              None \<Rightarrow> Inl KeyError
            | Some position \<Rightarrow>
                let state' = state\<lparr>positions := AList.delete asset (positions state)\<rparr>;
                    ord = \<lparr>symbol = asset, order_qty = qty position, side = Sell, time_in_force = GTC\<rparr>
                in (case submit_order api ord w of
                      Inl e \<Rightarrow> Inr (state', cash, w)
                    | Inr w' \<Rightarrow> Inr (state', cash, save_state json_dump state' w')))))"

text \<open>
  One cycle. The result is the state held in memory at the end together with the world,
  or the exception that leaves the function together with the world reached.
  \<^verbatim>\<open>
  def evaluate_and_trade():
      state = load_state()
      cash = float(api.get_account().cash)
      for asset in ASSETS:
          ...
      save_state(state)
  \<close>
\<close>

definition evaluate_and_trade ::
  "(string \<Rightarrow> py_error + bot_state) \<Rightarrow> (bot_state \<Rightarrow> string) \<Rightarrow> broker \<Rightarrow> world
     \<Rightarrow> (py_error \<times> world) + (bot_state \<times> world)" where
  "evaluate_and_trade json_load json_dump api w =
     (case load_state json_load w of
        Inl e \<Rightarrow> Inl (e, w)
      | Inr state \<Rightarrow>
          (case account_cash api of
             Inl e \<Rightarrow> Inl (e, w)
           | Inr cash \<Rightarrow>
               (case for_each (trade_asset json_dump api) ASSETS (state, cash, w) of
                  Inl (e, (state', cash', w')) \<Rightarrow> Inl (e, w')
                | Inr (state', cash', w') \<Rightarrow> Inr (state', save_state json_dump state' w'))))"

section \<open>The crossover bot of 2lioneheart.py\<close>

definition ASSETS_lh :: "string list" where
  "ASSETS_lh = [''AAPL'', ''AMZN'', ''GOOGL'']"

text \<open>
  The branch taken for one asset.
  \<^verbatim>\<open>
  if not prices:
      continue
  short_sma = sum(prices[-10:]) / 10 if len(prices) >= 10 else None
  long_sma = sum(prices[-50:]) / 50 if len(prices) >= 50 else None
  if not short_sma or not long_sma:
      continue
  if short_sma > long_sma and asset not in state.get("positions", {}):
      ...
  elif short_sma < long_sma and asset in state.get("positions", {}):
      ...
  \<close>
\<close>

definition signal_lh :: "rat list \<Rightarrow> bool \<Rightarrow> decision" where
  "signal_lh prices held =
     (if prices = [] then HOLD
      else
        let short_sma = short_sma_lh prices;
            long_sma = long_sma_lh prices
        in if falsy short_sma \<or> falsy long_sma then HOLD
           else if the short_sma > the long_sma \<and> \<not> held then BUY
           else if the short_sma < the long_sma \<and> held then SELL
           else HOLD)"

text \<open>
  The body of the loop for one asset; \<open>cash\<close> is \<open>float(account.cash)\<close>, read once per
  cycle and never reduced.
  \<^verbatim>\<open>
  if short_sma > long_sma and asset not in state.get("positions", {}):
      qty = float(account.cash) / prices[-1]
      try:
          api.submit_order(symbol=asset, qty=qty, side="buy", type="market", time_in_force="day")
          state["positions"][asset] = {"qty": qty, "entry_price": prices[-1]}
          save_state(state)
      except Exception as e:
          logger.error(f"Failed to buy {asset}: {e}")
  elif short_sma < long_sma and asset in state.get("positions", {}):
      position = state["positions"].pop(asset)
      try:
          api.submit_order(symbol=asset, qty=position["qty"], side="sell", type="market", time_in_force="gtc")
          save_state(state)
      except Exception as e:
          logger.error(f"Failed to sell {asset}: {e}")
  \<close>
\<close>

definition trade_asset_lh ::
  "(bot_state \<Rightarrow> string) \<Rightarrow> broker \<Rightarrow> rat \<Rightarrow> string \<Rightarrow> bot_state \<times> world
     \<Rightarrow> py_error + bot_state \<times> world" where
  "trade_asset_lh json_dump api cash asset = (\<lambda>(state, w).
     let prices = fetch_prices api asset in
     case signal_lh prices (map_of (positions state) asset \<noteq> None) of
       HOLD \<Rightarrow> Inr (state, w)
     | BUY \<Rightarrow>
         if last prices = 0 then Inl ZeroDivisionError
         else
           let q = cash / last prices;
               ord = \<lparr>symbol = asset, order_qty = q, side = Buy, time_in_force = DAY\<rparr>
           in (case submit_order api ord w of
                 Inl e \<Rightarrow> Inr (state, w)
               | Inr w' \<Rightarrow>
                   let state' = state\<lparr>positions :=
                         AList.update asset \<lparr>qty = q, entry_price = last prices\<rparr> (positions state)\<rparr>
                   in Inr (state', save_state json_dump state' w'))
     | SELL \<Rightarrow>
         (case map_of (positions state) asset of
            None \<Rightarrow> Inl KeyError
          | Some position \<Rightarrow>
              let state' = state\<lparr>positions := AList.delete asset (positions state)\<rparr>;
                  ord = \<lparr>symbol = asset, order_qty = qty position, side = Sell, time_in_force = GTC\<rparr>
              in (case submit_order api ord w of
                    Inl e \<Rightarrow> Inr (state', w)
                  | Inr w' \<Rightarrow> Inr (state', save_state json_dump state' w'))))"

text \<open>
  One cycle: nothing happens when \<open>manual_stop\<close> is set or the account cannot be read
  (\<open>account_cash\<close> stands for reading the account and its cash together).
  \<^verbatim>\<open>
  def evaluate_and_trade():
      global manual_stop
      if manual_stop:
          return
      state = load_state()
      try:
          account = api.get_account()
      except Exception as e:
          return
      for asset in ASSETS:
          ...
  \<close>
\<close>

definition evaluate_and_trade_lh ::
  "(string \<Rightarrow> py_error + bot_state) \<Rightarrow> (bot_state \<Rightarrow> string) \<Rightarrow> broker \<Rightarrow> bool \<Rightarrow> world
     \<Rightarrow> (py_error \<times> world) + world" where
  "evaluate_and_trade_lh json_load json_dump api manual_stop w =
     (if manual_stop then Inr w
      else
        case load_state json_load w of
          Inl e \<Rightarrow> Inl (e, w)
        | Inr state \<Rightarrow>
            (case account_cash api of
               Inl e \<Rightarrow> Inr w
             | Inr cash \<Rightarrow>
                 (case for_each (trade_asset_lh json_dump api cash) ASSETS_lh (state, w) of
                    Inl (e, (state', w')) \<Rightarrow> Inl (e, w')
                  | Inr (state', w') \<Rightarrow> Inr w')))"

section \<open>The take-profit and stop-loss bot of 1alpaca\_bot.py\<close>

definition ALLOCATION :: rat where
  "ALLOCATION = 10"

definition TAKE_PROFIT_PERCENT :: rat where
  "TAKE_PROFIT_PERCENT = 10"

definition STOP_LOSS_PERCENT :: rat where
  "STOP_LOSS_PERCENT = 5"

text \<open>
  \<^verbatim>\<open>
  def get_crypto_price(symbol):
      try:
          ...
          return latest_trade.price
      except Exception as e:
          return None

  def place_order(symbol, allocation, side):
      try:
          price = get_crypto_price(symbol)
          if not price:
              return
          qty = round(allocation / price, 4)
          order_request = MarketOrderRequest(symbol=symbol, qty=qty, side=side,
                                             time_in_force=TimeInForce.IOC)
          trading_client.submit_order(order_request)
      except Exception as e:
          logger.error(f"Error placing order for {symbol}: {e}")
  \<close>
\<close>

definition get_crypto_price :: "broker \<Rightarrow> string \<Rightarrow> rat option" where
  "get_crypto_price api smb = (case latest_price api smb of Inl e \<Rightarrow> None | Inr p \<Rightarrow> p)"

definition place_order :: "broker \<Rightarrow> string \<Rightarrow> rat \<Rightarrow> order_side \<Rightarrow> world \<Rightarrow> world" where
  "place_order api smb allocation sd w =
     (let price = get_crypto_price api smb in
      if falsy price then w
      else
        let q = py_round (allocation / the price) 4;
            ord = \<lparr>symbol = smb, order_qty = q, side = sd, time_in_force = IOC\<rparr>
        in (case submit_order api ord w of Inl e \<Rightarrow> w | Inr w' \<Rightarrow> w'))"

text \<open>
  The body of the loop of \<open>check_take_profit_and_stop_loss\<close> for one entry of the
  snapshot \<open>list(positions.items())\<close>, on the loop state (positions, world). The price
  is requested twice for a position that is sold: by the loop body, and again inside
  \<open>place_order\<close>. \<open>now\<close> is the broker as it answers the request of the loop body,
  \<open>later\<close> the broker as it answers the request and the order of \<open>place_order\<close>. The
  symbols of the positions are the keys of a dictionary, so within one pass no symbol
  is asked about more than these two times.
  \<^verbatim>\<open>
  current_price = get_crypto_price(symbol)
  if not current_price:
      continue
  entry_price = data["entry_price"]
  qty = data["qty"]
  profit_loss_percent = ((current_price - entry_price) / entry_price) * 100
  if profit_loss_percent >= TAKE_PROFIT_PERCENT:
      place_order(symbol, qty * current_price, OrderSide.SELL)
      del positions[symbol]
  elif profit_loss_percent <= -STOP_LOSS_PERCENT:
      place_order(symbol, qty * current_price, OrderSide.SELL)
      del positions[symbol]
  \<close>
\<close>

definition check_position ::
  "broker \<Rightarrow> broker \<Rightarrow> string \<times> position \<Rightarrow> (string \<times> position) list \<times> world
     \<Rightarrow> py_error + (string \<times> position) list \<times> world" where
  "check_position now later = (\<lambda>(smb, data) (ps, w).
     let current_price = get_crypto_price now smb in
     if falsy current_price then Inr (ps, w)
     else if entry_price data = 0 then Inl ZeroDivisionError
     else
       let profit_loss_percent =
             ((the current_price - entry_price data) / entry_price data) * 100
       in if profit_loss_percent \<ge> TAKE_PROFIT_PERCENT then
            Inr (AList.delete smb ps, place_order later smb (qty data * the current_price) Sell w)
          else if profit_loss_percent \<le> - STOP_LOSS_PERCENT then
            Inr (AList.delete smb ps, place_order later smb (qty data * the current_price) Sell w)
          else Inr (ps, w))"

text \<open>
  \<^verbatim>\<open>
  def check_take_profit_and_stop_loss():
      global positions
      for symbol, data in list(positions.items()):
          ...
  \<close>
\<close>

definition check_take_profit_and_stop_loss ::
  "broker \<Rightarrow> broker \<Rightarrow> (string \<times> position) list \<times> world
     \<Rightarrow> (py_error \<times> (string \<times> position) list \<times> world) + (string \<times> position) list \<times> world" where
  "check_take_profit_and_stop_loss now later =
     (\<lambda>(ps, w). for_each (check_position now later) ps (ps, w))"

text \<open>
  The body of the loop over \<open>ASSETS\<close> in \<open>main\<close>, with the same two requests: \<open>now\<close>
  answers the request of the loop body, \<open>later\<close> the request and the order of
  \<open>place_order\<close>.
  \<^verbatim>\<open>
  for asset in ASSETS:
      if asset in positions:
          continue
      price = get_crypto_price(asset)
      if price:
          qty = round(ALLOCATION / price, 4)
          positions[asset] = {"entry_price": price, "qty": qty}
          place_order(asset, ALLOCATION, OrderSide.BUY)
  \<close>
\<close>

definition open_position ::
  "broker \<Rightarrow> broker \<Rightarrow> string \<Rightarrow> (string \<times> position) list \<times> world
     \<Rightarrow> py_error + (string \<times> position) list \<times> world" where
  "open_position now later asset = (\<lambda>(ps, w).
     if map_of ps asset \<noteq> None then Inr (ps, w)
     else
       let price = get_crypto_price now asset in
       if falsy price then Inr (ps, w)
       else
         let q = py_round (ALLOCATION / the price) 4
         in Inr (AList.update asset \<lparr>qty = q, entry_price = the price\<rparr> ps,
                 place_order later asset ALLOCATION Buy w))"



section \<open>The order functions of the rebalancing scripts\<close>

text \<open>
  3ques\_trade.py. A failed price request answers \<open>0\<close>; \<open>place_order\<close> catches every
  exception, its own \<open>ValueError\<close> included.
  \<^verbatim>\<open>
  def get_asset_price(symbol):
      try:
          ...
          return quote.askprice      # or trade.price
      except Exception as e:
          return 0

  def place_order(symbol, side, amount):
      try:
          price = get_asset_price(symbol)
          if price == 0:
              raise ValueError("Invalid asset price.")
          qty = round(amount / price, 4)
          api.submit_order(symbol=symbol, qty=qty, side=side, type='market', time_in_force='gtc')
      except Exception as e:
          logger.error(f"Failed to place order for {symbol}: {e}")
  \<close>
\<close>

definition get_asset_price :: "broker \<Rightarrow> string \<Rightarrow> rat option" where
  "get_asset_price api smb = (case latest_price api smb of Inl e \<Rightarrow> Some 0 | Inr p \<Rightarrow> p)"

definition place_order_3 :: "broker \<Rightarrow> string \<Rightarrow> order_side \<Rightarrow> rat \<Rightarrow> world \<Rightarrow> world" where
  "place_order_3 api smb sd amount w =
     (case get_asset_price api smb of
        None \<Rightarrow> w
      | Some price \<Rightarrow>
          if price = 0 then w
          else
            let q = py_round (amount / price) 4;
                ord = \<lparr>symbol = smb, order_qty = q, side = sd, time_in_force = GTC\<rparr>
            in (case submit_order api ord w of Inl e \<Rightarrow> w | Inr w' \<Rightarrow> w'))"

text \<open>
  4ques\_trade.py. Formatting a missing price with \<open>:.2f\<close> raises inside the \<open>try\<close> of
  \<open>get_symbol_price\<close>, so a missing price is answered as \<open>0\<close> as well.
  \<^verbatim>\<open>
  def get_symbol_price(symbol):
      try:
          response = send_request(f"v1/markets/quotes/{symbol}")
          price = response.get("quotes", [{}])[0].get("lastTradePrice", 0)
          logging.info(f"Latest price for {symbol}: ${price:.2f}")
          return price
      except Exception as e:
          return 0

  def place_order(account_id, symbol, side, amount):
      try:
          price = get_symbol_price(symbol)
          if price <= 0:
              raise ValueError("Invalid price fetched for the symbol.")
          quantity = round(amount / price, 4)
          order_data = {..., "quantity": quantity, "action": side.upper(), "timeInForce": "GTC"}
          send_request(f"v1/accounts/{account_id}/orders", method="POST", data=order_data)
      except Exception as e:
          logging.error(f"Failed to place order for {symbol}: {e}")
  \<close>
\<close>

definition get_symbol_price_4 :: "broker \<Rightarrow> string \<Rightarrow> rat" where
  "get_symbol_price_4 api smb =
     (case latest_price api smb of Inl e \<Rightarrow> 0 | Inr None \<Rightarrow> 0 | Inr (Some p) \<Rightarrow> p)"

definition place_order_4 :: "broker \<Rightarrow> string \<Rightarrow> order_side \<Rightarrow> rat \<Rightarrow> world \<Rightarrow> world" where
  "place_order_4 api smb sd amount w =
     (let price = get_symbol_price_4 api smb in
      if price \<le> 0 then w
      else
        let quantity = py_round (amount / price) 4;
            ord = \<lparr>symbol = smb, order_qty = quantity, side = sd, time_in_force = GTC\<rparr>
        in (case submit_order api ord w of Inl e \<Rightarrow> w | Inr w' \<Rightarrow> w'))"

text \<open>
  5ques\_trade.py. Nothing is caught here: a failed request and the comparison
  \<open>None <= 0\<close> raise out of \<open>place_order\<close>.
  \<^verbatim>\<open>
  def get_symbol_price(symbol):
      endpoint = f"/v1/markets/quotes/{symbol}"
      response = send_request(endpoint)
      return response.get("quotes", [{}])[0].get("lastTradePrice", 0)

  def place_order(account_id, symbol, side, amount):
      price = get_symbol_price(symbol)
      if price <= 0:
          logging.error(f"Invalid price for {symbol}. Skipping order.")
          return
      quantity = round(amount / price, 4)
      order_data = {..., "quantity": quantity, "action": side.upper(), "timeInForce": "GTC"}
      send_request(endpoint, method="POST", data=order_data)
  \<close>
\<close>

definition get_symbol_price_5 :: "broker \<Rightarrow> string \<Rightarrow> py_error + rat option" where
  "get_symbol_price_5 api smb = latest_price api smb"

definition place_order_5 :: "broker \<Rightarrow> string \<Rightarrow> order_side \<Rightarrow> rat \<Rightarrow> world \<Rightarrow> py_error + world" where
  "place_order_5 api smb sd amount w =
     then_do (get_symbol_price_5 api smb) (\<lambda>price.
       case price of
         None \<Rightarrow> Inl TypeError
       | Some p \<Rightarrow>
           if p \<le> 0 then Inr w
           else
             let quantity = py_round (amount / p) 4;
                 ord = \<lparr>symbol = smb, order_qty = quantity, side = sd, time_in_force = GTC\<rparr>
             in submit_order api ord w)"

section \<open>Polling loops\<close>

text \<open>
  What is raised inside a loop: \<open>KeyboardInterrupt\<close>, which \<open>except Exception\<close> does not
  catch, or an exception of class \<open>Exception\<close>. An iteration leaves a trace of the sleeps
  and error log lines it makes and either continues or ends the loop.
\<close>

datatype raised = KeyboardInterrupt | Exception py_error

datatype attempt = Completes | Raises raised

datatype event = Sleep nat | LogError py_error

datatype stop = ManualStop | ProfitTarget | Uncaught raised

datatype control = Continue | Break stop

text \<open>
  A \<open>while True\<close> loop run over the iterations given: it stops at the first iteration
  that breaks, and is still running (\<open>Continue\<close>) when the iterations are used up.
\<close>

fun run_loop ::
  "('c \<Rightarrow> 's \<Rightarrow> event list \<times> control \<times> 's) \<Rightarrow> 'c list \<Rightarrow> 's \<Rightarrow> event list \<times> control \<times> 's" where
  "run_loop step [] s = ([], Continue, s)"
| "run_loop step (c # cs) s =
     (case step c s of
        (evs, Break r, s') \<Rightarrow> (evs, Break r, s')
      | (evs, Continue, s') \<Rightarrow>
          (case run_loop step cs s' of (evs', ctl, s'') \<Rightarrow> (evs @ evs', ctl, s'')))"

text \<open>
  One iteration of \<open>main\<close> of 1alpaca\_bot.py; the argument is what the \<open>try\<close> block
  does: it completes with its sleep, or something is raised in it. \<open>main\<close> of 2paper.py
  and \<open>run_bot\<close> of Lioneheart1.py have the same \<open>try\<close> and the same two handlers
  (2paper.py closes its positions before the \<open>break\<close>); \<open>main\<close> of 2lioneheart.py has
  them too, after a market-hours gate.
  \<^verbatim>\<open>
  while True:
      try:
          ...
          sleep(CHECK_INTERVAL)
      except KeyboardInterrupt:
          logger.info("Bot stopped manually.")
          break
      except Exception as e:
          logger.error(f"Unexpected error: {e}")
          sleep(CHECK_INTERVAL)
  \<close>
\<close>

definition CHECK_INTERVAL :: nat where
  "CHECK_INTERVAL = 300"

definition main_step :: "attempt \<Rightarrow> unit \<Rightarrow> event list \<times> control \<times> unit" where
  "main_step a u =
     (case a of
        Completes \<Rightarrow> ([Sleep CHECK_INTERVAL], Continue, u)
      | Raises KeyboardInterrupt \<Rightarrow> ([], Break ManualStop, u)
      | Raises (Exception e) \<Rightarrow> ([LogError e, Sleep CHECK_INTERVAL], Continue, u))"

text \<open>
  One iteration of \<open>run_bot\<close> of 3ques\_trade.py, which has no \<open>try\<close>; the first argument
  is \<open>is_market_open()\<close>.
  \<^verbatim>\<open>
  while True:
      get_account_info()
      get_open_positions()
      if is_market_open():
          rebalance_stock_portfolio()
          sleep(TRADE_INTERVAL_STOCKS)
      elif is_crypto_trading_time():
          rebalance_crypto_portfolio()
          sleep(TRADE_INTERVAL_CRYPTO)
      else:
          sleep(TRADE_INTERVAL_STOCKS)
  \<close>
\<close>

definition run_bot_3_step :: "bool \<times> attempt \<Rightarrow> unit \<Rightarrow> event list \<times> control \<times> unit" where
  "run_bot_3_step = (\<lambda>(market_open, a) u.
     case a of
       Completes \<Rightarrow> ([Sleep (if market_open then 1800 else 3600)], Continue, u)
     | Raises x \<Rightarrow> ([], Break (Uncaught x), u))"

text \<open>
  One iteration of \<open>run_bot\<close> of 4ques\_trade.py.
  \<^verbatim>\<open>
  while True:
      try:
          if is_trading_time():
              rebalance_portfolio(account_id)
          else:
              logging.info("Market is closed. Waiting for the next trading session.")
          sleep(3600)
      except KeyboardInterrupt:
          break
      except Exception as e:
          logging.error(f"Unexpected error in the bot loop: {e}")
  \<close>
\<close>

definition run_bot_4_step :: "attempt \<Rightarrow> unit \<Rightarrow> event list \<times> control \<times> unit" where
  "run_bot_4_step a u =
     (case a of
        Completes \<Rightarrow> ([Sleep 3600], Continue, u)
      | Raises KeyboardInterrupt \<Rightarrow> ([], Break ManualStop, u)
      | Raises (Exception e) \<Rightarrow> ([LogError e], Continue, u))"

text \<open>
  One iteration of \<open>run_bot\<close> of 5ques\_trade.py, on the running \<open>total_profit\<close>. What
  the iteration meets is given by a \<open>cycle\<close>: whether \<open>KeyboardInterrupt\<close> is raised in
  the \<open>try\<close> block, the value of \<open>is_trading_time()\<close>, what
  \<open>calculate_portfolio_profit(account_id)\<close> returns or raises, and the exception that
  \<open>manage_positions\<close> or \<open>rebalance_portfolio\<close> raises, if any.
  \<open>calculate_portfolio_profit\<close> is called but defined in none of the scripts, so its
  result is a parameter; with no definition at all the call raises \<open>NameError\<close>.
  \<^verbatim>\<open>
  total_profit = 0
  while True:
      try:
          if is_trading_time():
              total_profit += calculate_portfolio_profit(account_id)
              if total_profit >= PROFIT_TARGET:
                  break
              manage_positions(account_id)
              rebalance_portfolio(account_id)
          else:
              logging.info("Market is closed. Waiting for next session.")
          sleep(3600)
      except KeyboardInterrupt:
          break
      except Exception as e:
          logging.error(f"Unexpected error in bot loop: {e}")
  \<close>
\<close>

definition PROFIT_TARGET :: rat where
  "PROFIT_TARGET = 1000"

record cycle =
  interrupted :: bool
  trading_time :: bool
  portfolio_profit :: "py_error + rat"
  trades :: "py_error option"

definition run_bot_5_step :: "cycle \<Rightarrow> rat \<Rightarrow> event list \<times> control \<times> rat" where
  "run_bot_5_step c total_profit =
     (if interrupted c then ([], Break ManualStop, total_profit)
      else if trading_time c then
        (case portfolio_profit c of
           Inl e \<Rightarrow> ([LogError e], Continue, total_profit)
         | Inr p \<Rightarrow>
             if total_profit + p \<ge> PROFIT_TARGET then ([], Break ProfitTarget, total_profit + p)
             else
               (case trades c of
                  Some e \<Rightarrow> ([LogError e], Continue, total_profit + p)
                | None \<Rightarrow> ([Sleep 3600], Continue, total_profit + p)))
      else ([Sleep 3600], Continue, total_profit))"

definition run_bot_5 :: "cycle list \<Rightarrow> event list \<times> control \<times> rat" where
  "run_bot_5 cycles = run_loop run_bot_5_step cycles 0"

text \<open>
  What a cycle adds to \<open>total_profit\<close>: the profit computed, when the market is open
  and the computation returns.
\<close>

definition gain :: "cycle \<Rightarrow> rat" where
  "gain c =
     (if \<not> interrupted c \<and> trading_time c
      then (case portfolio_profit c of Inl e \<Rightarrow> 0 | Inr p \<Rightarrow> p) else 0)"

section \<open>A reference reader and writer for state files\<close>

text \<open>
  \<open>json.load\<close> and \<open>json.dump\<close> are parameters of \<open>load_state\<close> and \<open>save_state\<close>. This
  reader and writer stand in for the library where a property is about what is on file:
  they follow \<open>json.dump(state, f, indent=4)\<close> and \<open>json.load(f)\<close> on the documents a
  state file holds.
\<close>

text \<open>
  JSON documents as far as the state files need them: numbers, strings and objects. An
  object is the list of its members in the order of the text.
\<close>

datatype json = JNumber rat | JString string | JObject "(string \<times> json) list"

subsection \<open>Writer\<close>

text \<open>
  Numbers. \<open>json.dump\<close> writes a float as the shortest decimal that reads back as the same
  float, always with a fraction, and with an exponent when the float is very large or
  very small. Here a number is an exact rational, and the writer writes its decimal
  expansion, with at least one digit after the point and no exponent: the digits can
  differ from those of \<open>json.dump\<close>, the number that is read back does not. The
  expansion is finite when the denominator in lowest terms divides a power of ten
  (\<open>decimal\<close>); for a denominator \<open>b\<close> the power \<open>halvings b\<close>, the number of times \<open>b\<close> can
  be halved, is then enough. Every float is such a number, its denominator being a power
  of two.
\<close>

definition digit_char :: "nat \<Rightarrow> char" where
  "digit_char d = ''0123456789'' ! (d mod 10)"

fun nat_digits_fuel :: "nat \<Rightarrow> nat \<Rightarrow> nat list" where
  "nat_digits_fuel 0 n = []"
| "nat_digits_fuel (Suc fuel) n =
     (if n < 10 then [n] else nat_digits_fuel fuel (n div 10) @ [n mod 10])"

definition nat_digits :: "nat \<Rightarrow> nat list" where
  "nat_digits n = nat_digits_fuel (Suc n) n"

fun fraction_digits :: "nat \<Rightarrow> rat \<Rightarrow> nat list" where
  "fraction_digits 0 y = []"
| "fraction_digits (Suc fuel) y =
     (let d = \<lfloor>y * 10\<rfloor>; r = y * 10 - of_int d
      in nat d # (if r = 0 then [] else fraction_digits fuel r))"

fun halvings_fuel :: "nat \<Rightarrow> nat \<Rightarrow> nat" where
  "halvings_fuel 0 n = 0"
| "halvings_fuel (Suc fuel) n = (if n \<le> 1 then 0 else Suc (halvings_fuel fuel (n div 2)))"

definition halvings :: "nat \<Rightarrow> nat" where
  "halvings n = halvings_fuel n n"

definition decimal :: "rat \<Rightarrow> bool" where
  "decimal x = (nat (snd (quotient_of x)) dvd 10 ^ halvings (nat (snd (quotient_of x))))"

definition dump_number :: "rat \<Rightarrow> string" where
  "dump_number x =
     (let a = \<bar>x\<bar>; whole = \<lfloor>a\<rfloor>
      in (if x < 0 then ''-'' else '''')
           @ map digit_char (nat_digits (nat whole)) @ ''.''
           @ map digit_char (fraction_digits (Suc (halvings (nat (snd (quotient_of x))))) (a - of_int whole)))"

text \<open>
  Strings. \<open>json.dump\<close> writes a string between double quotes, with a backslash before a
  double quote and a backslash, the short escapes for line feed, carriage return, tab,
  backspace and form feed, and a six-character escape (backslash, u, four hexadecimal digits) for every other
  character outside the printable ASCII range.
\<close>

definition hex_char :: "nat \<Rightarrow> char" where
  "hex_char d = ''0123456789abcdef'' ! (d mod 16)"

definition escape_char :: "char \<Rightarrow> string" where
  "escape_char c =
     (if c = CHR 0x22 then [CHR 0x5C, CHR 0x22]
      else if c = CHR 0x5C then [CHR 0x5C, CHR 0x5C]
      else if c = CHR 0x0A then [CHR 0x5C, CHR ''n'']
      else if c = CHR 0x0D then [CHR 0x5C, CHR ''r'']
      else if c = CHR 0x09 then [CHR 0x5C, CHR ''t'']
      else if c = CHR 0x08 then [CHR 0x5C, CHR ''b'']
      else if c = CHR 0x0C then [CHR 0x5C, CHR ''f'']
      else if 32 \<le> (of_char c :: nat) \<and> (of_char c :: nat) \<le> 126 then [c]
      else [CHR 0x5C, CHR ''u'', CHR ''0'', CHR ''0'',
            hex_char (of_char c div 16), hex_char (of_char c mod 16)])"

definition quoted :: "string \<Rightarrow> string" where
  "quoted s = CHR 0x22 # concat (map escape_char s) @ [CHR 0x22]"

text \<open>
  Objects, laid out as \<open>indent=4\<close> does: a line per member, four spaces per level, \<open>": "\<close>
  after a key, a comma at the end of every line but the last, and \<open>{}\<close> for the empty
  object.
\<close>

fun dump_value :: "nat \<Rightarrow> json \<Rightarrow> string"
  and dump_members :: "nat \<Rightarrow> (string \<times> json) list \<Rightarrow> string" where
  "dump_value level (JNumber x) = dump_number x"
| "dump_value level (JString s) = quoted s"
| "dump_value level (JObject []) = ''{}''"
| "dump_value level (JObject (kv # kvs)) =
     ''{'' @ [CHR 0x0A] @ dump_members (Suc level) (kv # kvs) @ [CHR 0x0A]
       @ replicate (4 * level) CHR '' '' @ ''}''"
| "dump_members level [] = []"
| "dump_members level ((k, v) # kvs) =
     replicate (4 * level) CHR '' '' @ quoted k @ '': '' @ dump_value level v
       @ (if kvs = [] then [] else '','' @ [CHR 0x0A] @ dump_members level kvs)"

subsection \<open>Reader\<close>

text \<open>
  The reader skips white space between tokens. A number is an optional minus sign, digits
  without a leading zero, an optional fraction and an optional exponent. A string may
  hold the escapes of the writer, an escaped slash, and hexadecimal escapes below 256 (a
  character of the model is a byte); a control character in a string is an error. An object whose text repeats
  a key keeps the first place and the last value of the key, as a Python dictionary does.
  Lists, \<open>true\<close>, \<open>false\<close> and \<open>null\<close>, which no state file holds, are not read. The fuel
  bounds the nesting and the number of members; the length of the text is always enough.
\<close>

definition is_space :: "char \<Rightarrow> bool" where
  "is_space c = (c = CHR '' '' \<or> c = CHR 0x0A \<or> c = CHR 0x09 \<or> c = CHR 0x0D)"

definition skip_ws :: "string \<Rightarrow> string" where
  "skip_ws s = dropWhile is_space s"

definition digit_value :: "char \<Rightarrow> nat option" where
  "digit_value c = map_of (zip ''0123456789'' [0 ..< 10]) c"

fun take_digits :: "string \<Rightarrow> nat list \<times> string" where
  "take_digits [] = ([], [])"
| "take_digits (c # cs) =
     (case digit_value c of
        None \<Rightarrow> ([], c # cs)
      | Some d \<Rightarrow> (case take_digits cs of (ds, rest) \<Rightarrow> (d # ds, rest)))"

definition number_of :: "nat list \<Rightarrow> nat" where
  "number_of ds = foldl (\<lambda>a d. 10 * a + d) 0 ds"

definition parse_fraction :: "string \<Rightarrow> (rat \<times> string) option" where
  "parse_fraction s =
     (case s of
        [] \<Rightarrow> Some (0, s)
      | c # cs \<Rightarrow>
          if c = CHR ''.'' then
            (case take_digits cs of (ds, rest) \<Rightarrow>
               if ds = [] then None
               else Some (of_nat (number_of ds) / 10 ^ length ds, rest))
          else Some (0, s))"

definition parse_exponent :: "string \<Rightarrow> (int \<times> string) option" where
  "parse_exponent s =
     (case s of
        [] \<Rightarrow> Some (0, s)
      | c # cs \<Rightarrow>
          if c = CHR ''e'' \<or> c = CHR ''E'' then
            (let negative = (case cs of [] \<Rightarrow> False | d # ds \<Rightarrow> d = CHR ''-'');
                 signed = (case cs of [] \<Rightarrow> False | d # ds \<Rightarrow> d = CHR ''-'' \<or> d = CHR ''+'')
             in case take_digits (if signed then tl cs else cs) of (ds, rest) \<Rightarrow>
                  if ds = [] then None
                  else Some (if negative then - int (number_of ds) else int (number_of ds), rest))
          else Some (0, s))"

definition scale :: "rat \<Rightarrow> int \<Rightarrow> rat" where
  "scale x e = (if 0 \<le> e then x * 10 ^ nat e else x / 10 ^ nat (- e))"

definition parse_unsigned :: "string \<Rightarrow> (rat \<times> string) option" where
  "parse_unsigned s =
     (case take_digits s of (whole, rest) \<Rightarrow>
        if whole = [] \<or> (1 < length whole \<and> hd whole = 0) then None
        else
          (case parse_fraction rest of
             None \<Rightarrow> None
           | Some (fr, rest') \<Rightarrow>
               (case parse_exponent rest' of
                  None \<Rightarrow> None
                | Some (e, rest'') \<Rightarrow> Some (scale (of_nat (number_of whole) + fr) e, rest''))))"

definition parse_number :: "string \<Rightarrow> (rat \<times> string) option" where
  "parse_number s =
     (case s of
        [] \<Rightarrow> None
      | c # cs \<Rightarrow>
          if c = CHR ''-'' then map_option (\<lambda>(x, rest). (- x, rest)) (parse_unsigned cs)
          else parse_unsigned s)"

definition hex_value :: "char \<Rightarrow> nat option" where
  "hex_value c = map_of (zip ''0123456789abcdef'' [0 ..< 16] @ zip ''ABCDEF'' [10 ..< 16]) c"

definition unescape :: "char \<Rightarrow> char option" where
  "unescape e =
     map_of [(CHR 0x22, CHR 0x22), (CHR 0x5C, CHR 0x5C), (CHR ''/'', CHR ''/''),
             (CHR ''b'', CHR 0x08), (CHR ''f'', CHR 0x0C), (CHR ''n'', CHR 0x0A),
             (CHR ''r'', CHR 0x0D), (CHR ''t'', CHR 0x09)] e"

fun read_chars :: "string \<Rightarrow> (string \<times> string) option" where
  "read_chars [] = None"
| "read_chars (c # cs) =
     (if c = CHR 0x22 then Some ([], cs)
      else if c = CHR 0x5C then
        (case cs of
           [] \<Rightarrow> None
         | e # cs' \<Rightarrow>
             if e = CHR ''u'' then
               (case cs' of
                  h1 # h2 # h3 # h4 # cs'' \<Rightarrow>
                    (case (hex_value h1, hex_value h2, hex_value h3, hex_value h4) of
                       (Some a, Some b, Some c', Some d) \<Rightarrow>
                         if ((a * 16 + b) * 16 + c') * 16 + d < 256 then
                           map_option (\<lambda>(str, rest). (char_of (c' * 16 + d) # str, rest))
                             (read_chars cs'')
                         else None
                     | _ \<Rightarrow> None)
                | _ \<Rightarrow> None)
             else
               (case unescape e of
                  None \<Rightarrow> None
                | Some ch \<Rightarrow> map_option (\<lambda>(str, rest). (ch # str, rest)) (read_chars cs')))
      else if (of_char c :: nat) < 32 then None
      else map_option (\<lambda>(str, rest). (c # str, rest)) (read_chars cs))"

definition parse_string :: "string \<Rightarrow> (string \<times> string) option" where
  "parse_string s =
     (case s of [] \<Rightarrow> None | c # cs \<Rightarrow> if c = CHR 0x22 then read_chars cs else None)"

definition dict_of :: "(string \<times> 'v) list \<Rightarrow> (string \<times> 'v) list" where
  "dict_of kvs = fold (\<lambda>(k, v). AList.update k v) kvs []"

fun parse_value :: "nat \<Rightarrow> string \<Rightarrow> (json \<times> string) option"
  and parse_members :: "nat \<Rightarrow> string \<Rightarrow> ((string \<times> json) list \<times> string) option" where
  "parse_value 0 s = None"
| "parse_value (Suc fuel) s =
     (case skip_ws s of
        [] \<Rightarrow> None
      | c # cs \<Rightarrow>
          if c = CHR ''{'' then
            (case skip_ws cs of
               [] \<Rightarrow> None
             | d # ds \<Rightarrow>
                 if d = CHR ''}'' then Some (JObject [], ds)
                 else map_option (\<lambda>(kvs, rest). (JObject (dict_of kvs), rest)) (parse_members fuel cs))
          else if c = CHR 0x22 then
            map_option (\<lambda>(str, rest). (JString str, rest)) (parse_string (c # cs))
          else map_option (\<lambda>(x, rest). (JNumber x, rest)) (parse_number (c # cs)))"
| "parse_members 0 s = None"
| "parse_members (Suc fuel) s =
     (case parse_string (skip_ws s) of
        None \<Rightarrow> None
      | Some (k, s1) \<Rightarrow>
          (case skip_ws s1 of
             [] \<Rightarrow> None
           | c # s2 \<Rightarrow>
               if c \<noteq> CHR '':'' then None
               else
                 (case parse_value fuel s2 of
                    None \<Rightarrow> None
                  | Some (v, s3) \<Rightarrow>
                      (case skip_ws s3 of
                         [] \<Rightarrow> None
                       | d # s4 \<Rightarrow>
                           if d = CHR ''}'' then Some ([(k, v)], s4)
                           else if d = CHR '','' then
                             map_option (\<lambda>(kvs, rest). ((k, v) # kvs, rest)) (parse_members fuel s4)
                           else None))))"

definition json_loads :: "string \<Rightarrow> json option" where
  "json_loads s =
     (case parse_value (Suc (length s)) s of
        None \<Rightarrow> None
      | Some (v, rest) \<Rightarrow> if skip_ws rest = [] then Some v else None)"

subsection \<open>Documents the reader gives back as written\<close>




subsection \<open>Documents and states\<close>

text \<open>
  Between documents and the typed state. A document of another shape than the one the
  bot writes has no typed counterpart; the reference loader reports it as \<open>TypeError\<close>.
\<close>

definition json_of_position :: "position \<Rightarrow> json" where
  "json_of_position p = JObject [(''qty'', JNumber (qty p)), (''entry_price'', JNumber (entry_price p))]"

definition json_of_state :: "bot_state \<Rightarrow> json" where
  "json_of_state st =
     JObject [(''positions'', JObject (map (\<lambda>(k, p). (k, json_of_position p)) (positions st)))]"

definition position_of_json :: "json \<Rightarrow> position option" where
  "position_of_json j =
     (case j of
        JObject fs \<Rightarrow>
          (case (map_of fs ''qty'', map_of fs ''entry_price'') of
             (Some (JNumber q), Some (JNumber e)) \<Rightarrow> Some \<lparr>qty = q, entry_price = e\<rparr>
           | _ \<Rightarrow> None)
      | _ \<Rightarrow> None)"

fun positions_of_json :: "(string \<times> json) list \<Rightarrow> (string \<times> position) list option" where
  "positions_of_json [] = Some []"
| "positions_of_json ((k, j) # kvs) =
     (case position_of_json j of
        None \<Rightarrow> None
      | Some p \<Rightarrow> map_option (\<lambda>ps. (k, p) # ps) (positions_of_json kvs))"

definition state_of_json :: "json \<Rightarrow> bot_state option" where
  "state_of_json j =
     (case j of
        JObject members \<Rightarrow>
          (case map_of members ''positions'' of
             Some (JObject kvs) \<Rightarrow> map_option (\<lambda>ps. \<lparr>positions = ps\<rparr>) (positions_of_json kvs)
           | _ \<Rightarrow> None)
      | _ \<Rightarrow> None)"

definition json_dump_ref :: "bot_state \<Rightarrow> string" where
  "json_dump_ref st = dump_value 0 (json_of_state st)"

definition json_load_ref :: "string \<Rightarrow> py_error + bot_state" where
  "json_load_ref text =
     (case json_loads text of
        None \<Rightarrow> Inl JSONDecodeError
      | Some j \<Rightarrow> (case state_of_json j of None \<Rightarrow> Inl TypeError | Some st \<Rightarrow> Inr st))"


text \<open>The same for the state of Lioneheart1.py.\<close>

definition invested_of_json :: "json \<Rightarrow> invested option" where
  "invested_of_json j =
     (case j of
        JObject fs \<Rightarrow>
          (case (map_of fs ''qty'', map_of fs ''price'') of
             (Some (JNumber q), Some (JNumber pr)) \<Rightarrow> Some \<lparr>invested_qty = q, invested_price = pr\<rparr>
           | _ \<Rightarrow> None)
      | _ \<Rightarrow> None)"

fun invested_assets_of_json :: "(string \<times> json) list \<Rightarrow> (string \<times> invested) list option" where
  "invested_assets_of_json [] = Some []"
| "invested_assets_of_json ((k, j) # kvs) =
     (case invested_of_json j of
        None \<Rightarrow> None
      | Some i \<Rightarrow> map_option (\<lambda>is. (k, i) # is) (invested_assets_of_json kvs))"

definition lh_state_of_json :: "json \<Rightarrow> lh_state option" where
  "lh_state_of_json j =
     (case j of
        JObject members \<Rightarrow>
          (case map_of members ''invested_assets'' of
             Some (JObject kvs) \<Rightarrow>
               map_option (\<lambda>is. \<lparr>invested_assets = is\<rparr>) (invested_assets_of_json kvs)
           | _ \<Rightarrow> None)
      | _ \<Rightarrow> None)"

definition json_load_lh_ref :: "string \<Rightarrow> py_error + lh_state" where
  "json_load_lh_ref text =
     (case json_loads text of
        None \<Rightarrow> Inl JSONDecodeError
      | Some j \<Rightarrow> (case lh_state_of_json j of None \<Rightarrow> Inl TypeError | Some st \<Rightarrow> Inr st))"


section \<open>Sample inputs\<close>

text \<open>
  A broker that quotes the price \<open>p\<close> for every symbol, has no bars, and accepts every
  order or none; a world with no state file and no orders.
\<close>

definition quote_broker :: "rat \<Rightarrow> bool \<Rightarrow> broker" where
  "quote_broker p ok =
     \<lparr>account_cash = Inr 100, bars = (\<lambda>a. Inr []), latest_price = (\<lambda>a. Inr (Some p)),
      submit_ok = (\<lambda>ord. ok)\<rparr>"

definition fresh_world :: world where
  "fresh_world = \<lparr>state_file = None, writable = True, orders = []\<rparr>"

text \<open>
  Fifty closing prices whose last ten lie above, and below, the earlier forty.
\<close>

definition rising :: "rat list" where
  "rising = replicate 40 1 @ replicate 10 2"

definition falling :: "rat list" where
  "falling = replicate 40 2 @ replicate 10 1"

text \<open>One tracked position of half a unit, entered at the price \<open>e\<close>.\<close>

definition bch :: "rat \<Rightarrow> (string \<times> position) list" where
  "bch e = [(''BCH/USD'', \<lparr>qty = 0.5, entry_price = e\<rparr>)]"

text \<open>The state with the single position of the specification's round-trip example.\<close>

definition bch_state :: bot_state where
  "bch_state = \<lparr>positions = [(''BCH/USD'', \<lparr>qty = 0.5, entry_price = 300\<rparr>)]\<rparr>"

text \<open>
  A broker whose bars for BCH/USD fall, who has no bars for the other assets, and who
  rejects every order; a world whose state file holds the position of \<open>bch_state\<close>;
  a world whose state file is empty.
\<close>

definition falling_broker :: broker where
  "falling_broker =
     \<lparr>account_cash = Inr 100,
      bars = (\<lambda>a. if a = ''BCH/USD'' then Inr falling else Inr []),
      latest_price = (\<lambda>a. Inl APIError),
      submit_ok = (\<lambda>ord. False)\<rparr>"

definition held_world :: world where
  "held_world = \<lparr>state_file = Some (json_dump_ref bch_state), writable = True, orders = []\<rparr>"

definition empty_file_world :: world where
  "empty_file_world = \<lparr>state_file = Some [], writable = True, orders = []\<rparr>"


text \<open>
  Cycles of 5ques\_trade.py in trading hours: one whose profit computation returns \<open>p\<close>,
  one whose profit computation raises \<open>NameError\<close>, and one that is interrupted.
\<close>

definition profit_cycle :: "rat \<Rightarrow> cycle" where
  "profit_cycle p =
     \<lparr>interrupted = False, trading_time = True, portfolio_profit = Inr p, trades = None\<rparr>"

definition undefined_profit_cycle :: cycle where
  "undefined_profit_cycle =
     \<lparr>interrupted = False, trading_time = True, portfolio_profit = Inl NameError, trades = None\<rparr>"

definition interrupt_cycle :: cycle where
  "interrupt_cycle =
     \<lparr>interrupted = True, trading_time = True, portfolio_profit = Inr 0, trades = None\<rparr>"



section \<open>Properties: moving averages\<close>

lemma slice_last_suffix:
  "0 < n \<Longrightarrow> n \<le> length xs \<Longrightarrow>
   xs = take (length xs - n) xs @ slice_last xs n \<and> length (slice_last xs n) = n"
  by (simp add: slice_last_def)

text \<open>
  Claim C2. With fewer than 10 prices the short average is undefined. With at least 10
  and fewer than 50 prices the short average is the mean of the last 10 prices, that is
  of the suffix of length 10, and the long average is undefined. With at least 50 prices
  the long average is the mean of the last 50 prices. This holds for \<open>calculate_sma\<close>
  of 2paper.py and for the inline averages of 2lioneheart.py.
\<close>

theorem sma_defined_by_length:
  "(length prices < 10 \<longrightarrow>
      calculate_sma prices 10 = Inr None \<and> short_sma_lh prices = None) \<and>
   (10 \<le> length prices \<and> length prices < 50 \<longrightarrow>
      (\<exists>older recent. prices = older @ recent \<and> length recent = 10 \<and>
         calculate_sma prices 10 = Inr (Some (sum_list recent / 10)) \<and>
         short_sma_lh prices = Some (sum_list recent / 10)) \<and>
      calculate_sma prices 50 = Inr None \<and> long_sma_lh prices = None) \<and>
   (50 \<le> length prices \<longrightarrow>
      (\<exists>older recent. prices = older @ recent \<and> length recent = 50 \<and>
         calculate_sma prices 50 = Inr (Some (sum_list recent / 50)) \<and>
         long_sma_lh prices = Some (sum_list recent / 50)))"
proof (intro conjI impI)
  assume "length prices < 10"
  then show "calculate_sma prices 10 = Inr None" by (simp add: calculate_sma_def)
next
  assume "length prices < 10"
  then show "short_sma_lh prices = None" by (simp add: short_sma_lh_def)
next
  assume h: "10 \<le> length prices \<and> length prices < 50"
  then have s: "prices = take (length prices - 10) prices @ slice_last prices 10
      \<and> length (slice_last prices 10) = 10"
    using slice_last_suffix [of 10 prices] by simp
  from h have "calculate_sma prices 10 = Inr (Some (sum_list (slice_last prices 10) / 10))"
    by (simp add: calculate_sma_def)
  moreover from h have "short_sma_lh prices = Some (sum_list (slice_last prices 10) / 10)"
    by (simp add: short_sma_lh_def)
  ultimately show "\<exists>older recent. prices = older @ recent \<and> length recent = 10 \<and>
         calculate_sma prices 10 = Inr (Some (sum_list recent / 10)) \<and>
         short_sma_lh prices = Some (sum_list recent / 10)"
    using s by blast
next
  assume "10 \<le> length prices \<and> length prices < 50"
  then show "calculate_sma prices 50 = Inr None" by (simp add: calculate_sma_def)
next
  assume "10 \<le> length prices \<and> length prices < 50"
  then show "long_sma_lh prices = None" by (simp add: long_sma_lh_def)
next
  assume h: "50 \<le> length prices"
  then have s: "prices = take (length prices - 50) prices @ slice_last prices 50
      \<and> length (slice_last prices 50) = 50"
    using slice_last_suffix [of 50 prices] by simp
  from h have "calculate_sma prices 50 = Inr (Some (sum_list (slice_last prices 50) / 50))"
    by (simp add: calculate_sma_def)
  moreover from h have "long_sma_lh prices = Some (sum_list (slice_last prices 50) / 50)"
    by (simp add: long_sma_lh_def)
  ultimately show "\<exists>older recent. prices = older @ recent \<and> length recent = 50 \<and>
         calculate_sma prices 50 = Inr (Some (sum_list recent / 50)) \<and>
         long_sma_lh prices = Some (sum_list recent / 50)"
    using s by blast
qed

theorem sma_defined_by_length_witness:
  "length [1, 2, 3 :: rat] < 10 \<and> calculate_sma [1, 2, 3] 10 = Inr None \<and>
   10 \<le> length (replicate 12 (3 :: rat)) \<and> length (replicate 12 (3 :: rat)) < 50 \<and>
   calculate_sma (replicate 12 3) 50 = Inr None \<and>
   (\<exists>older recent. replicate 12 (3 :: rat) = older @ recent \<and> length recent = 10 \<and>
      calculate_sma (replicate 12 3) 10 = Inr (Some (sum_list recent / 10))) \<and>
   50 \<le> length (replicate 60 (2 :: rat)) \<and>
   (\<exists>older recent. replicate 60 (2 :: rat) = older @ recent \<and> length recent = 50 \<and>
      calculate_sma (replicate 60 2) 50 = Inr (Some (sum_list recent / 50)))"
  using sma_defined_by_length [of "[1, 2, 3]"] sma_defined_by_length [of "replicate 12 3"]
    sma_defined_by_length [of "replicate 60 2"]
  by simp blast

section \<open>Properties: order quantity\<close>

lemma py_round_grid: "\<exists>k::int. py_round x n * 10 ^ n = of_int k"
  by (simp add: py_round_def Let_def)

lemma py_round_near: "\<bar>py_round x n - x\<bar> \<le> 1 / (2 * 10 ^ n)"
proof -
  define s :: rat where "s = 10 ^ n"
  have s: "0 < s" by (simp add: s_def)
  define y where "y = x * s"
  define f where "f = \<lfloor>y\<rfloor>"
  define r where "r = y - of_int f"
  have r0: "0 \<le> r" and r1: "r < 1" unfolding r_def f_def by linarith+
  define k where "k = (if r < 1 / 2 then f else if 1 / 2 < r then f + 1 else if even f then f else f + 1)"
  have pr: "py_round x n = of_int k / s"
    by (simp add: py_round_def Let_def k_def r_def f_def y_def s_def)
  have "\<bar>of_int k - y\<bar> \<le> 1 / 2"
    using r0 r1 unfolding k_def r_def by (auto simp: abs_if)
  then have "\<bar>of_int k - y\<bar> / s \<le> (1 / 2) / s"
    using s by (rule_tac divide_right_mono) auto
  moreover have "\<bar>of_int k - y\<bar> / s = \<bar>of_int k / s - x\<bar>"
  proof -
    have "of_int k / s - x = (of_int k - y) / s" using s by (simp add: y_def diff_divide_distrib)
    then show ?thesis using s by (simp add: abs_divide)
  qed
  ultimately show ?thesis by (simp add: pr s_def)
qed

lemma py_round_sample: "py_round (20 / 3.3333) 4 = 6.0001"
  by code_simp

lemma py_round_sample_normal: "py_round (200000 / 33333) 4 = 60001 / 10000"
  by code_simp

lemma place_order_positive:
  "latest_price api smb = Inr (Some p) \<Longrightarrow> p \<noteq> 0 \<Longrightarrow>
   place_order api smb a sd w =
     (let ord = \<lparr>symbol = smb, order_qty = py_round (a / p) 4, side = sd, time_in_force = IOC\<rparr>
      in if submit_ok api ord then w\<lparr>orders := orders w @ [ord]\<rparr> else w)"
  by (simp add: place_order_def get_crypto_price_def falsy_def submit_order_def Let_def)

lemma place_order_4_positive:
  "latest_price api smb = Inr (Some p) \<Longrightarrow> 0 < p \<Longrightarrow>
   place_order_4 api smb sd a w =
     (let ord = \<lparr>symbol = smb, order_qty = py_round (a / p) 4, side = sd, time_in_force = GTC\<rparr>
      in if submit_ok api ord then w\<lparr>orders := orders w @ [ord]\<rparr> else w)"
  by (simp add: place_order_4_def get_symbol_price_4_def submit_order_def Let_def)

text \<open>
  Claim C3, as amended. In \<open>place_order\<close> of 1alpaca\_bot.py and of 4ques\_trade.py,
  with a fetched price \<open>p > 0\<close> and allocation \<open>a\<close>, the order handed to the broker
  has the quantity \<open>round(a / p, 4)\<close>: a multiple of \<open>0.0001\<close> that differs from
  \<open>a / p\<close> by at most \<open>0.00005\<close>. For allocation 20 and price 3.3333 this quantity is
  6.0001.
\<close>

theorem place_order_quantity:
  assumes "latest_price api smb = Inr (Some p)" and "0 < p"
  shows "(\<exists>q. place_order api smb a sd w =
            (let ord = \<lparr>symbol = smb, order_qty = q, side = sd, time_in_force = IOC\<rparr>
             in if submit_ok api ord then w\<lparr>orders := orders w @ [ord]\<rparr> else w) \<and>
          place_order_4 api smb sd a w =
            (let ord = \<lparr>symbol = smb, order_qty = q, side = sd, time_in_force = GTC\<rparr>
             in if submit_ok api ord then w\<lparr>orders := orders w @ [ord]\<rparr> else w) \<and>
          q = py_round (a / p) 4 \<and>
          (\<exists>k::int. q * 10 ^ 4 = of_int k) \<and>
          \<bar>q - a / p\<bar> \<le> 1 / 20000) \<and>
         py_round (20 / 3.3333) 4 = 6.0001"
proof -
  have "p \<noteq> 0" using assms(2) by simp
  then have a: "place_order api smb a sd w =
     (let ord = \<lparr>symbol = smb, order_qty = py_round (a / p) 4, side = sd, time_in_force = IOC\<rparr>
      in if submit_ok api ord then w\<lparr>orders := orders w @ [ord]\<rparr> else w)"
    using place_order_positive [OF assms(1)] by simp
  have b: "place_order_4 api smb sd a w =
     (let ord = \<lparr>symbol = smb, order_qty = py_round (a / p) 4, side = sd, time_in_force = GTC\<rparr>
      in if submit_ok api ord then w\<lparr>orders := orders w @ [ord]\<rparr> else w)"
    using place_order_4_positive [OF assms] by simp
  have c: "\<exists>k::int. py_round (a / p) 4 * 10 ^ 4 = of_int k" by (rule py_round_grid)
  have d: "\<bar>py_round (a / p) 4 - a / p\<bar> \<le> 1 / 20000"
    using py_round_near [of "a / p" 4] by simp
  show ?thesis using a b c d py_round_sample by blast
qed

theorem place_order_quantity_witness:
  "latest_price (quote_broker 3.3333 True) ''BCH/USD'' = Inr (Some 3.3333) \<and> (0::rat) < 3.3333 \<and>
   orders (place_order (quote_broker 3.3333 True) ''BCH/USD'' 20 Buy fresh_world) =
     [\<lparr>symbol = ''BCH/USD'', order_qty = 6.0001, side = Buy, time_in_force = IOC\<rparr>] \<and>
   orders (place_order_4 (quote_broker 3.3333 True) ''BCH/USD'' Buy 20 fresh_world) =
     [\<lparr>symbol = ''BCH/USD'', order_qty = 6.0001, side = Buy, time_in_force = GTC\<rparr>]"
  using place_order_quantity [of "quote_broker 3.3333 True" "''BCH/USD''" "3.3333" 20 Buy fresh_world]
  by (auto simp add: quote_broker_def fresh_world_def Let_def)

text \<open>
  The quantity for allocation 20 and price 3.3333 is not 6.0: \<open>20 / 3.3333\<close> is
  \<open>6.00006...\<close>, whose fifth decimal rounds the fourth up.
\<close>

theorem place_order_quantity_counterexample:
  "orders (place_order (quote_broker 3.3333 True) ''BCH/USD'' 20 Buy fresh_world) =
     [\<lparr>symbol = ''BCH/USD'', order_qty = 6.0001, side = Buy, time_in_force = IOC\<rparr>] \<and>
   (6.0001 :: rat) \<noteq> 6.0"
  using place_order_positive [of "quote_broker 3.3333 True" "''BCH/USD''" "3.3333" 20 Buy fresh_world]
  by (simp add: quote_broker_def fresh_world_def Let_def py_round_sample_normal)

section \<open>Properties: crossover decision\<close>

lemma calculate_sma_short: "calculate_sma prices 10 = Inr (short_sma_lh prices)"
  by (simp add: calculate_sma_def short_sma_lh_def)

lemma calculate_sma_long: "calculate_sma prices 50 = Inr (long_sma_lh prices)"
  by (simp add: calculate_sma_def long_sma_lh_def)

lemma long_defined_nonempty: "long_sma_lh prices = Some l \<Longrightarrow> prices \<noteq> []"
  by (auto simp: long_sma_lh_def split: if_splits)

lemma signal_lh_undefined:
  "short_sma_lh prices = None \<or> long_sma_lh prices = None \<Longrightarrow> signal_lh prices held = HOLD"
  by (auto simp: signal_lh_def falsy_def Let_def)

lemma signal_undefined:
  "short_sma_lh prices = None \<or> long_sma_lh prices = None \<Longrightarrow> signal prices cash held = Inr HOLD"
  by (auto simp: signal_def falsy_def then_do_def calculate_sma_short calculate_sma_long)

lemma signal_no_cash:
  "cash < TARGET_ALLOCATION \<Longrightarrow> signal prices cash held = Inr HOLD"
  by (auto simp: signal_def then_do_def calculate_sma_short calculate_sma_long)

lemma signal_lh_defined:
  assumes "short_sma_lh prices = Some s" "long_sma_lh prices = Some l" "s \<noteq> 0" "l \<noteq> 0"
  shows "signal_lh prices held =
           (if l < s \<and> \<not> held then BUY else if s < l \<and> held then SELL else HOLD)"
  using assms long_defined_nonempty [OF assms(2)]
  by (simp add: signal_lh_def falsy_def Let_def)

lemma signal_defined:
  assumes "short_sma_lh prices = Some s" "long_sma_lh prices = Some l" "s \<noteq> 0" "l \<noteq> 0"
    "TARGET_ALLOCATION \<le> cash"
  shows "signal prices cash held =
           Inr (if l < s \<and> \<not> held then BUY else if s < l \<and> held then SELL else HOLD)"
  using assms long_defined_nonempty [OF assms(2)]
  by (simp add: signal_def falsy_def then_do_def calculate_sma_short calculate_sma_long)

text \<open>
  Claim C1, as amended. In both crossover bots the decision is \<open>HOLD\<close> when either
  average is undefined, and in 2paper.py also when the cash is below the target
  allocation. When both averages are defined and neither is zero (and, in 2paper.py, the
  cash covers the target allocation), the decision is \<open>BUY\<close> exactly when the short
  average is strictly greater than the long one and no position is held, \<open>SELL\<close> exactly
  when it is strictly less and a position is held, and \<open>HOLD\<close> in every other case,
  equality included.
\<close>

theorem crossover_decision:
  "(short_sma_lh prices = None \<or> long_sma_lh prices = None \<longrightarrow>
      signal prices cash held = Inr HOLD \<and> signal_lh prices held = HOLD) \<and>
   (cash < TARGET_ALLOCATION \<longrightarrow> signal prices cash held = Inr HOLD) \<and>
   (short_sma_lh prices = Some s \<and> long_sma_lh prices = Some l \<and> s \<noteq> 0 \<and> l \<noteq> 0 \<longrightarrow>
      (signal_lh prices held = BUY \<longleftrightarrow> l < s \<and> \<not> held) \<and>
      (signal_lh prices held = SELL \<longleftrightarrow> s < l \<and> held) \<and>
      (signal_lh prices held = HOLD \<longleftrightarrow> \<not> (l < s \<and> \<not> held) \<and> \<not> (s < l \<and> held)) \<and>
      (TARGET_ALLOCATION \<le> cash \<longrightarrow>
         (signal prices cash held = Inr BUY \<longleftrightarrow> l < s \<and> \<not> held) \<and>
         (signal prices cash held = Inr SELL \<longleftrightarrow> s < l \<and> held) \<and>
         (signal prices cash held = Inr HOLD \<longleftrightarrow> \<not> (l < s \<and> \<not> held) \<and> \<not> (s < l \<and> held))))"
proof (intro conjI impI)
  assume "short_sma_lh prices = None \<or> long_sma_lh prices = None"
  then show "signal prices cash held = Inr HOLD" by (rule signal_undefined)
next
  assume "short_sma_lh prices = None \<or> long_sma_lh prices = None"
  then show "signal_lh prices held = HOLD" by (rule signal_lh_undefined)
next
  assume "cash < TARGET_ALLOCATION"
  then show "signal prices cash held = Inr HOLD" by (rule signal_no_cash)
next
  assume h: "short_sma_lh prices = Some s \<and> long_sma_lh prices = Some l \<and> s \<noteq> 0 \<and> l \<noteq> 0"
  then have e: "signal_lh prices held =
      (if l < s \<and> \<not> held then BUY else if s < l \<and> held then SELL else HOLD)"
    using signal_lh_defined [of prices s l held] by simp
  show "signal_lh prices held = BUY \<longleftrightarrow> l < s \<and> \<not> held" unfolding e by auto
  show "signal_lh prices held = SELL \<longleftrightarrow> s < l \<and> held" unfolding e by auto
  show "signal_lh prices held = HOLD \<longleftrightarrow> \<not> (l < s \<and> \<not> held) \<and> \<not> (s < l \<and> held)"
    unfolding e by auto
  assume c: "TARGET_ALLOCATION \<le> cash"
  have f: "signal prices cash held =
      Inr (if l < s \<and> \<not> held then BUY else if s < l \<and> held then SELL else HOLD)"
    using h c signal_defined [of prices s l cash held] by simp
  show "signal prices cash held = Inr BUY \<longleftrightarrow> l < s \<and> \<not> held" unfolding f by auto
  show "signal prices cash held = Inr SELL \<longleftrightarrow> s < l \<and> held" unfolding f by auto
  show "signal prices cash held = Inr HOLD \<longleftrightarrow> \<not> (l < s \<and> \<not> held) \<and> \<not> (s < l \<and> held)"
    unfolding f by auto
qed

lemma rising_short: "short_sma_lh rising = Some 2"
  by (simp add: short_sma_lh_def rising_def slice_last_def sum_list_replicate)

lemma rising_long: "long_sma_lh rising = Some (6 / 5)"
  by (simp add: long_sma_lh_def rising_def slice_last_def sum_list_replicate)

lemma falling_short: "short_sma_lh falling = Some 1"
  by (simp add: short_sma_lh_def falling_def slice_last_def sum_list_replicate)

lemma falling_long: "long_sma_lh falling = Some (9 / 5)"
  by (simp add: long_sma_lh_def falling_def slice_last_def sum_list_replicate)

lemma few_long: "long_sma_lh [1, 2, 3] = None"
  by (simp add: long_sma_lh_def)

theorem crossover_decision_witness:
  "long_sma_lh [1, 2, 3] = None \<and> signal [1, 2, 3] 100 False = Inr HOLD \<and>
   signal_lh [1, 2, 3] False = HOLD \<and>
   (10 :: rat) < TARGET_ALLOCATION \<and> signal rising 10 False = Inr HOLD \<and>
   short_sma_lh rising = Some 2 \<and> long_sma_lh rising = Some (6 / 5) \<and>
   TARGET_ALLOCATION \<le> 100 \<and>
   signal rising 100 False = Inr BUY \<and> signal_lh rising False = BUY \<and>
   short_sma_lh falling = Some 1 \<and> long_sma_lh falling = Some (9 / 5) \<and>
   signal falling 100 True = Inr SELL \<and> signal_lh falling True = SELL"
  using crossover_decision [of "[1, 2, 3]" 100 False 0 0]
    crossover_decision [of rising 10 False 2 "6 / 5"]
    crossover_decision [of rising 100 False 2 "6 / 5"]
    crossover_decision [of falling 100 True 1 "9 / 5"]
  by (simp add: rising_short rising_long falling_short falling_long TARGET_ALLOCATION_def
      few_long)

text \<open>
  With 10 dollars of cash, a short average of 2 above a long average of 1.2 and no
  position, 2paper.py skips the asset instead of buying.
\<close>

theorem crossover_decision_counterexample:
  "calculate_sma rising 10 = Inr (Some 2) \<and> calculate_sma rising 50 = Inr (Some (6 / 5)) \<and>
   (6 / 5 :: rat) < 2 \<and> signal rising 10 False = Inr HOLD"
  using signal_no_cash [of 10 rising False]
  by (simp add: calculate_sma_short calculate_sma_long rising_short rising_long TARGET_ALLOCATION_def)

text \<open>
  An average of exactly zero is taken for a missing one by \<open>not short_sma\<close>: the asset is
  skipped although the short average 0 is below the long average 0.8 and a position is
  held.
\<close>

lemma zero_average_held: "signal_lh (replicate 40 1 @ replicate 10 0) True = HOLD"
  by (simp add: signal_lh_def short_sma_lh_def long_sma_lh_def slice_last_def falsy_def Let_def sum_list_replicate)

section \<open>Properties: take-profit and stop-loss\<close>










text \<open>
  When the price request inside \<open>place_order\<close> fails, no order is placed and the
  position is dropped all the same.
\<close>

lemma sell_skipped_position_dropped:
  "check_take_profit_and_stop_loss (quote_broker 111 True)
     ((quote_broker 111 True)\<lparr>latest_price := (\<lambda>a. Inl APIError)\<rparr>) (bch 100, fresh_world) =
     Inr ([], fresh_world)"
  by code_simp

text \<open>
  The positions that \<open>main\<close> records have distinct symbols and entry prices other than
  zero, so the two conditions of the theorem hold for the positions the bot tracks.
\<close>

lemma update_new_key: "map_of ps k = None \<Longrightarrow> AList.update k v ps = ps @ [(k, v)]"
  by (induction ps) (auto split: if_splits)

lemma open_position_keeps_tracked:
  assumes "open_position now later asset (ps, w) = Inr (ps', w')"
    and "distinct (map fst ps)" and "\<forall>x \<in> set ps. entry_price (snd x) \<noteq> 0"
  shows "distinct (map fst ps') \<and> (\<forall>x \<in> set ps'. entry_price (snd x) \<noteq> 0)"
proof (cases "map_of ps asset = None \<and> \<not> falsy (get_crypto_price now asset)")
  case True
  then have n: "asset \<notin> fst ` set ps" by (simp add: map_of_eq_None_iff)
  from True assms(1) have "ps' = AList.update asset
      \<lparr>qty = py_round (ALLOCATION / the (get_crypto_price now asset)) 4,
       entry_price = the (get_crypto_price now asset)\<rparr> ps"
    by (auto simp: open_position_def Let_def)
  with True have "ps' = ps @ [(asset,
      \<lparr>qty = py_round (ALLOCATION / the (get_crypto_price now asset)) 4,
       entry_price = the (get_crypto_price now asset)\<rparr>)]"
    by (simp add: update_new_key)
  moreover from True have "the (get_crypto_price now asset) \<noteq> 0"
    by (auto simp: falsy_def split: option.splits)
  ultimately show ?thesis using assms(2,3) n by auto
next
  case False
  with assms(1) have "ps' = ps" by (auto simp: open_position_def Let_def split: if_splits)
  with assms(2,3) show ?thesis by simp
qed

section \<open>Properties: the reference reader and writer\<close>

text \<open>
  The reader gives back every document the writer writes, when its numbers have a finite
  decimal expansion and no object repeats a key.
\<close>

subsection \<open>Numbers\<close>













text \<open>
  A denominator that divides a power of ten divides the power \<open>halvings\<close> gives: each
  halving can take a factor of 2 or 5 away with a factor of 10.
\<close>

lemma halvings_fuel_mono: "c \<le> d \<Longrightarrow> halvings_fuel f c \<le> halvings_fuel f d"
proof (induction f arbitrary: c d)
  case 0
  then show ?case by simp
next
  case (Suc f)
  then have "c div 2 \<le> d div 2" by (simp add: div_le_mono)
  with Suc.IH have "halvings_fuel f (c div 2) \<le> halvings_fuel f (d div 2)" by blast
  with Suc.prems show ?case by auto
qed

lemma dvd_power_of_ten:
  fixes b :: nat
  assumes "0 < b" and "b dvd 10 ^ k" and "b \<le> f"
  shows "b dvd 10 ^ halvings_fuel f b"
  using assms
proof (induction f arbitrary: b)
  case 0
  then show ?case by simp
next
  case (Suc f)
  show ?case
  proof (cases "b \<le> 1")
    case True
    with Suc.prems(1) have "b = 1" by simp
    then show ?thesis by simp
  next
    case False
    define g where "g = gcd b 10"
    define c where "c = b div g"
    have gb: "g dvd b" and g10: "g dvd 10" unfolding g_def by simp_all
    have "g \<noteq> 1"
    proof
      assume "g = 1"
      then have "coprime b 10" unfolding g_def by (simp add: coprime_iff_gcd_eq_1)
      then have "coprime b (10 ^ k)" by simp
      from coprime_common_divisor [OF this dvd_refl Suc.prems(2)] have "b = 1" by simp
      with False show False by simp
    qed
    moreover have "g \<noteq> 0" unfolding g_def by simp
    ultimately have g2: "2 \<le> g" by simp
    have bgc: "b = g * c" unfolding c_def using gb by simp
    have cpos: "0 < c" using bgc Suc.prems(1) by (cases c) auto
    have "c dvd b" using bgc by simp
    then have cdvd: "c dvd 10 ^ k" using Suc.prems(2) by (rule dvd_trans)
    have "c \<le> b div 2" unfolding c_def using g2 by (simp add: div_le_mono2)
    moreover have "b div 2 \<le> f" using Suc.prems(3) by simp
    ultimately have cle: "c \<le> b div 2" and cf: "c \<le> f" by simp_all
    from Suc.IH [OF cpos cdvd cf] have "c dvd 10 ^ halvings_fuel f c" .
    moreover have "halvings_fuel f c \<le> halvings_fuel f (b div 2)"
      using cle by (rule halvings_fuel_mono)
    ultimately have "c dvd 10 ^ halvings_fuel f (b div 2)"
      by (meson dvd_trans le_imp_power_dvd)
    with g10 have "g * c dvd 10 * 10 ^ halvings_fuel f (b div 2)" by (rule mult_dvd_mono)
    then show ?thesis using False bgc by simp
  qed
qed

lemma decimal_bound:
  assumes "decimal x"
  shows "\<exists>m :: int. x * 10 ^ halvings (nat (snd (quotient_of x))) = of_int m"
proof -
  obtain a b where q: "quotient_of x = (a, b)" by (cases "quotient_of x")
  then have bpos: "0 < b" and x: "x = of_int a / of_int b"
    by (simp_all add: quotient_of_denom_pos quotient_of_div)
  from assms have "nat b dvd 10 ^ halvings (nat b)" by (simp add: decimal_def q)
  then obtain c :: nat where c: "10 ^ halvings (nat b) = nat b * c"
    by (auto simp: dvd_def)
  then have "of_nat (10 ^ halvings (nat b)) = (of_nat (nat b * c) :: rat)"
    by (simp only:)
  then have "(10 :: rat) ^ halvings (nat b) = of_nat (nat b * c)"
    by simp
  then have "(10 :: rat) ^ halvings (nat b) = of_int b * of_nat c" using bpos by simp
  then have "of_int a / of_int b * (10 :: rat) ^ halvings (nat b) = of_int (a * int c)"
    using bpos by simp
  then have "x * 10 ^ halvings (nat b) = of_int (a * int c)"
    by (simp only: x)
  then have "\<exists>m :: int. x * 10 ^ halvings (nat b) = of_int m" ..
  then show ?thesis by (simp add: q)
qed

text \<open>
  \<open>decimal\<close> is having a finite decimal expansion; every dyadic rational, so every float,
  has one.
\<close>

lemma decimal_iff: "decimal x \<longleftrightarrow> (\<exists>(k :: nat) (m :: int). x * 10 ^ k = of_int m)"
proof
  assume "decimal x"
  from decimal_bound [OF this] show "\<exists>(k :: nat) (m :: int). x * 10 ^ k = of_int m" by blast
next
  assume "\<exists>(k :: nat) (m :: int). x * 10 ^ k = of_int m"
  then obtain k :: nat and m :: int where km: "x * 10 ^ k = of_int m" by blast
  obtain a b where q: "quotient_of x = (a, b)" by (cases "quotient_of x")
  then have bpos: "0 < b" and cop: "coprime a b" and x: "x = of_int a / of_int b"
    by (simp_all add: quotient_of_denom_pos quotient_of_coprime quotient_of_div)
  have "of_int (a * 10 ^ k) = (of_int (m * b) :: rat)"
    using km bpos unfolding x by (simp add: field_simps)
  then have "a * 10 ^ k = m * b" by (simp only: of_int_eq_iff)
  then have "b dvd a * 10 ^ k" by simp
  with cop have "b dvd 10 ^ k" by (simp add: coprime_commute coprime_dvd_mult_right_iff)
  then have "int (nat b) dvd int (10 ^ k)" using bpos by simp
  then have "nat b dvd 10 ^ k" by (simp only: int_dvd_int_iff)
  moreover have "0 < nat b" using bpos by simp
  ultimately have "nat b dvd 10 ^ halvings_fuel (nat b) (nat b)"
    using dvd_power_of_ten [of "nat b" k "nat b"] by simp
  then show "decimal x" by (simp add: decimal_def q halvings_def)
qed

lemma dyadic_decimal: "decimal (of_int m / 2 ^ k)"
proof -
  have "(of_int m / 2 ^ k :: rat) * 10 ^ k = of_int (m * 5 ^ k)"
  proof -
    have "(10 :: rat) ^ k = 2 ^ k * 5 ^ k" by (simp flip: power_mult_distrib)
    then show ?thesis by simp
  qed
  then show ?thesis unfolding decimal_iff by blast
qed






subsection \<open>Strings\<close>








subsection \<open>Documents\<close>
















subsection \<open>States\<close>








section \<open>Properties: state file\<close>

text \<open>
  \<open>load_state\<close> of 2paper.py answers a missing file and a file that is not valid JSON
  with the empty state.
\<close>

lemma load_state_missing:
  "state_file w = None \<Longrightarrow> load_state json_load w = Inr \<lparr>positions = []\<rparr>"
  by (simp add: load_state_def)

lemma load_state_corrupt:
  "state_file w = Some text \<Longrightarrow> json_load text = Inl JSONDecodeError \<Longrightarrow>
   load_state json_load w = Inr \<lparr>positions = []\<rparr>"
  by (simp add: load_state_def)

text \<open>
  \<open>load_state\<close> of Lioneheart1.py answers a missing file with the empty state, and lets
  the decoding error of a file that is not valid JSON through.
\<close>

lemma load_state_lh1_missing:
  "state_file w = None \<Longrightarrow> load_state_lh1 json_load w = Inr \<lparr>invested_assets = []\<rparr>"
  by (simp add: load_state_lh1_def)

lemma load_state_lh1_corrupt:
  "state_file w = Some text \<Longrightarrow> json_load text = Inl JSONDecodeError \<Longrightarrow>
   load_state_lh1 json_load w = Inl JSONDecodeError"
  by (simp add: load_state_lh1_def)

lemma empty_text_is_corrupt: "json_load_lh_ref [] = Inl JSONDecodeError"
  by code_simp

lemma empty_text_is_corrupt_paper: "json_load_ref [] = Inl JSONDecodeError"
  by code_simp

text \<open>
  Claim C5 says that loading never raises, and that a missing state file and one that is
  not valid JSON both give the empty position set. On an empty state file, which is not
  valid JSON, \<open>load_state\<close> of Lioneheart1.py raises \<open>JSONDecodeError\<close>, where
  \<open>load_state\<close> of 2paper.py gives the empty state.
\<close>

theorem load_state_lh1_raises_on_empty_file:
  "load_state_lh1 json_load_lh_ref empty_file_world = Inl JSONDecodeError \<and>
   load_state json_load_ref empty_file_world = Inr \<lparr>positions = []\<rparr>"
  by (simp add: load_state_lh1_def load_state_def empty_file_world_def empty_text_is_corrupt
      empty_text_is_corrupt_paper)

text \<open>
  Whatever the JSON library is, \<open>save_state\<close> followed by \<open>load_state\<close> gives the state
  that was saved when the file can be written and the library reads the state back as it
  wrote it.
\<close>

lemma save_then_load_library:
  assumes "writable w" and "json_load (json_dump state) = Inr state"
  shows "load_state json_load (save_state json_dump state w) = Inr state"
  using assms by (simp add: load_state_def save_state_def)





text \<open>
  \<open>save_state\<close> logs a failed write and goes on: the file then still holds what it held.
\<close>

lemma unwritable_keeps_file:
  "\<not> writable w \<Longrightarrow> load_state json_load (save_state json_dump state w) = load_state json_load w"
  by (simp add: save_state_def)

section \<open>Properties: state update and order outcome\<close>

text \<open>
  In 2paper.py a rejected buy leaves state, cash and world as they were (unless the last
  price is zero, when the division raises before the order), while a rejected sell has
  already taken the position out of the state in memory.
\<close>

lemma rejected_buy_changes_nothing:
  assumes "signal (fetch_prices api asset) cash (map_of (positions state) asset \<noteq> None) = Inr BUY"
    and "\<And>ord. \<not> submit_ok api ord"
  shows "trade_asset json_dump api asset (state, cash, w) = Inr (state, cash, w) \<or>
         trade_asset json_dump api asset (state, cash, w) = Inl ZeroDivisionError"
  using assms by (simp add: trade_asset_def then_do_def submit_order_def Let_def)

lemma rejected_sell_drops_position:
  assumes "signal (fetch_prices api asset) cash (map_of (positions state) asset \<noteq> None) = Inr SELL"
    and "map_of (positions state) asset = Some p"
    and "\<And>ord. \<not> submit_ok api ord"
  shows "trade_asset json_dump api asset (state, cash, w) =
           Inr (state\<lparr>positions := AList.delete asset (positions state)\<rparr>, cash, w)"
  using assms by (simp add: trade_asset_def then_do_def submit_order_def Let_def)

text \<open>
  Claim C7 says that the state changes only when the order goes through. One cycle of
  2paper.py that starts with the BCH/USD position on file, sees falling prices and has
  its sell order rejected ends with no position, in memory and on file. In
  1alpaca\_bot.py a position is recorded although the buy order is rejected.
\<close>

theorem failed_sell_drops_position:
  "load_state json_load_ref held_world = Inr bch_state \<and>
   evaluate_and_trade json_load_ref json_dump_ref falling_broker held_world =
     Inr (\<lparr>positions = []\<rparr>,
          held_world\<lparr>state_file := Some (json_dump_ref \<lparr>positions = []\<rparr>)\<rparr>) \<and>
   load_state json_load_ref (held_world\<lparr>state_file := Some (json_dump_ref \<lparr>positions = []\<rparr>)\<rparr>) =
     Inr \<lparr>positions = []\<rparr> \<and>
   open_position (quote_broker 100 False) (quote_broker 100 False) ''BCH/USD'' ([], fresh_world) =
     Inr ([(''BCH/USD'', \<lparr>qty = 0.1, entry_price = 100\<rparr>)], fresh_world)"
  by code_simp


section \<open>Properties: polling loops\<close>

lemma step_continue:
  "run_bot_5_step c tot = (evs, Continue, t) \<Longrightarrow> t = tot + gain c \<and> \<not> interrupted c"
  by (auto simp: run_bot_5_step_def gain_def split: if_splits sum.splits option.splits)

lemma step_manual:
  "run_bot_5_step c tot = (evs, Break ManualStop, t) \<Longrightarrow> interrupted c"
  by (auto simp: run_bot_5_step_def split: if_splits sum.splits option.splits)

lemma step_target:
  "run_bot_5_step c tot = (evs, Break ProfitTarget, t) \<Longrightarrow>
   \<not> interrupted c \<and> trading_time c \<and> t = tot + gain c \<and> PROFIT_TARGET \<le> t"
  by (auto simp: run_bot_5_step_def gain_def split: if_splits sum.splits option.splits)

lemma step_never_uncaught: "run_bot_5_step c tot \<noteq> (evs, Break (Uncaught x), t)"
  by (auto simp: run_bot_5_step_def split: if_splits sum.splits option.splits)

lemma step_below_target:
  "\<not> interrupted c \<Longrightarrow> tot + gain c < PROFIT_TARGET \<Longrightarrow>
   \<exists>evs. run_bot_5_step c tot = (evs, Continue, tot + gain c)"
  by (auto simp: run_bot_5_step_def gain_def split: if_splits sum.splits option.splits)

lemma step_breaks_at_target:
  "\<not> interrupted c \<Longrightarrow> trading_time c \<Longrightarrow> portfolio_profit c = Inr p \<Longrightarrow>
   PROFIT_TARGET \<le> tot + p \<Longrightarrow> run_bot_5_step c tot = ([], Break ProfitTarget, tot + p)"
  by (simp add: run_bot_5_step_def)

lemma loop_never_uncaught:
  "run_loop run_bot_5_step cycles tot = (evs, Break r, t) \<Longrightarrow> r = ManualStop \<or> r = ProfitTarget"
proof (induction cycles arbitrary: tot evs)
  case Nil
  then show ?case by simp
next
  case (Cons c cs)
  obtain e1 ctl t1 where st: "run_bot_5_step c tot = (e1, ctl, t1)"
    by (cases "run_bot_5_step c tot") auto
  show ?case
  proof (cases ctl)
    case Continue
    obtain e2 ctl2 t2 where rl: "run_loop run_bot_5_step cs t1 = (e2, ctl2, t2)"
      by (cases "run_loop run_bot_5_step cs t1") auto
    with Cons.prems st Continue have "ctl2 = Break r" "t2 = t" by auto
    with rl Cons.IH show ?thesis by blast
  next
    case (Break x)
    with Cons.prems st have "x = r" by auto
    with st Break step_never_uncaught [of c tot e1 _ t1] show ?thesis
      by (cases r) auto
  qed
qed

lemma loop_manual:
  "run_loop run_bot_5_step cycles tot = (evs, Break ManualStop, t) \<Longrightarrow>
   \<exists>c \<in> set cycles. interrupted c"
proof (induction cycles arbitrary: tot evs)
  case Nil
  then show ?case by simp
next
  case (Cons c cs)
  obtain e1 ctl t1 where st: "run_bot_5_step c tot = (e1, ctl, t1)"
    by (cases "run_bot_5_step c tot") auto
  show ?case
  proof (cases ctl)
    case Continue
    obtain e2 ctl2 t2 where rl: "run_loop run_bot_5_step cs t1 = (e2, ctl2, t2)"
      by (cases "run_loop run_bot_5_step cs t1") auto
    with Cons.prems st Continue have "ctl2 = Break ManualStop" "t2 = t" by auto
    with rl Cons.IH show ?thesis by auto
  next
    case (Break x)
    with Cons.prems st have "x = ManualStop" by auto
    with st Break step_manual show ?thesis by auto
  qed
qed

lemma loop_target:
  "run_loop run_bot_5_step cycles tot = (evs, Break ProfitTarget, t) \<Longrightarrow>
   PROFIT_TARGET \<le> t \<and>
   (\<exists>ran c rest. cycles = ran @ c # rest \<and> trading_time c \<and> \<not> interrupted c \<and>
      t = tot + sum_list (map gain (ran @ [c])))"
proof (induction cycles arbitrary: tot evs)
  case Nil
  then show ?case by simp
next
  case (Cons c cs)
  obtain e1 ctl t1 where st: "run_bot_5_step c tot = (e1, ctl, t1)"
    by (cases "run_bot_5_step c tot") auto
  show ?case
  proof (cases ctl)
    case Continue
    obtain e2 ctl2 t2 where rl: "run_loop run_bot_5_step cs t1 = (e2, ctl2, t2)"
      by (cases "run_loop run_bot_5_step cs t1") auto
    with Cons.prems st Continue have "ctl2 = Break ProfitTarget" "t2 = t" by auto
    with rl Cons.IH obtain ran c' rest where
      r: "PROFIT_TARGET \<le> t" "cs = ran @ c' # rest" "trading_time c'" "\<not> interrupted c'"
         "t = t1 + sum_list (map gain (ran @ [c']))"
      by blast
    from st Continue have "t1 = tot + gain c" using step_continue by blast
    with r have "c # cs = (c # ran) @ c' # rest \<and> trading_time c' \<and> \<not> interrupted c' \<and>
        t = tot + sum_list (map gain ((c # ran) @ [c']))"
      by simp
    with r(1) show ?thesis by blast
  next
    case (Break x)
    with Cons.prems st have x: "x = ProfitTarget" "t1 = t" by auto
    with st Break have "\<not> interrupted c \<and> trading_time c \<and> t = tot + gain c \<and> PROFIT_TARGET \<le> t"
      using step_target by blast
    then have "PROFIT_TARGET \<le> t \<and> c # cs = [] @ c # cs \<and> trading_time c \<and> \<not> interrupted c \<and>
        t = tot + sum_list (map gain ([] @ [c]))"
      by simp
    then show ?thesis by blast
  qed
qed

lemma loop_keeps_running:
  "\<forall>c \<in> set cycles. \<not> interrupted c \<Longrightarrow>
   \<forall>k \<le> length cycles. tot + sum_list (map gain (take k cycles)) < PROFIT_TARGET \<Longrightarrow>
   \<exists>evs. run_loop run_bot_5_step cycles tot = (evs, Continue, tot + sum_list (map gain cycles))"
proof (induction cycles arbitrary: tot)
  case Nil
  then show ?case by simp
next
  case (Cons c cs)
  from Cons.prems(2) have "tot + sum_list (map gain (take 1 (c # cs))) < PROFIT_TARGET"
    by (metis One_nat_def Suc_leI length_Cons zero_less_Suc)
  then have b: "tot + gain c < PROFIT_TARGET" by simp
  from Cons.prems(1) have ni: "\<not> interrupted c" by simp
  from step_below_target [OF ni b] obtain e1 where
    st: "run_bot_5_step c tot = (e1, Continue, tot + gain c)" by blast
  have "\<forall>k \<le> length cs. (tot + gain c) + sum_list (map gain (take k cs)) < PROFIT_TARGET"
  proof (intro allI impI)
    fix k assume "k \<le> length cs"
    then have "Suc k \<le> length (c # cs)" by simp
    with Cons.prems(2) have "tot + sum_list (map gain (take (Suc k) (c # cs))) < PROFIT_TARGET"
      by blast
    then show "(tot + gain c) + sum_list (map gain (take k cs)) < PROFIT_TARGET"
      by (simp add: add.assoc)
  qed
  with Cons.IH [of "tot + gain c"] Cons.prems(1) obtain e2 where
    "run_loop run_bot_5_step cs (tot + gain c) = (e2, Continue, tot + gain c + sum_list (map gain cs))"
    by auto
  with st show ?case by (simp add: add.assoc)
qed

text \<open>
  With the result of the profit computation as a parameter, the loop of 5ques\_trade.py,
  run over any sequence of cycles, ends only by manual interruption or by reaching the profit
  target, never by an exception: a stop by hand needs an interrupted cycle; a stop by the
  target happens in a trading cycle, with the running total, which is the sum of the
  profits computed so far, at or above the target; with no interruption and every running
  total below the target the loop is still running after the last cycle; and a trading
  cycle whose profit lifts the total to the target breaks the loop.
\<close>

theorem run_bot_5_terminal:
  "(run_bot_5 cycles = (evs, Break r, t) \<longrightarrow> r = ManualStop \<or> r = ProfitTarget) \<and>
   (run_bot_5 cycles = (evs, Break ManualStop, t) \<longrightarrow> (\<exists>c \<in> set cycles. interrupted c)) \<and>
   (run_bot_5 cycles = (evs, Break ProfitTarget, t) \<longrightarrow>
      PROFIT_TARGET \<le> t \<and>
      (\<exists>ran c rest. cycles = ran @ c # rest \<and> trading_time c \<and> \<not> interrupted c \<and>
         t = sum_list (map gain (ran @ [c])))) \<and>
   ((\<forall>c \<in> set cycles. \<not> interrupted c) \<and>
    (\<forall>k \<le> length cycles. sum_list (map gain (take k cycles)) < PROFIT_TARGET) \<longrightarrow>
      (\<exists>evs'. run_bot_5 cycles = (evs', Continue, sum_list (map gain cycles)))) \<and>
   (\<not> interrupted c \<and> trading_time c \<and> portfolio_profit c = Inr p \<and> PROFIT_TARGET \<le> tot + p \<longrightarrow>
      run_bot_5_step c tot = ([], Break ProfitTarget, tot + p))"
proof (intro conjI impI)
  assume "run_bot_5 cycles = (evs, Break r, t)"
  then show "r = ManualStop \<or> r = ProfitTarget"
    unfolding run_bot_5_def by (rule loop_never_uncaught)
next
  assume "run_bot_5 cycles = (evs, Break ManualStop, t)"
  then show "\<exists>c \<in> set cycles. interrupted c"
    unfolding run_bot_5_def by (rule loop_manual)
next
  assume a: "run_bot_5 cycles = (evs, Break ProfitTarget, t)"
  then show "PROFIT_TARGET \<le> t"
    unfolding run_bot_5_def using loop_target by blast
  from a show "\<exists>ran c rest. cycles = ran @ c # rest \<and> trading_time c \<and> \<not> interrupted c \<and>
         t = sum_list (map gain (ran @ [c]))"
    unfolding run_bot_5_def using loop_target [of cycles 0 evs t] by simp
next
  assume "(\<forall>c \<in> set cycles. \<not> interrupted c) \<and>
    (\<forall>k \<le> length cycles. sum_list (map gain (take k cycles)) < PROFIT_TARGET)"
  then show "\<exists>evs'. run_bot_5 cycles = (evs', Continue, sum_list (map gain cycles))"
    unfolding run_bot_5_def using loop_keeps_running [of cycles 0] by simp
next
  assume "\<not> interrupted c \<and> trading_time c \<and> portfolio_profit c = Inr p \<and> PROFIT_TARGET \<le> tot + p"
  then show "run_bot_5_step c tot = ([], Break ProfitTarget, tot + p)"
    using step_breaks_at_target by blast
qed

lemma reaches_target:
  "run_bot_5 [profit_cycle 600, profit_cycle 500, profit_cycle 1] =
     ([Sleep 3600], Break ProfitTarget, 1100)"
  by code_simp

lemma stopped_by_hand:
  "run_bot_5 [profit_cycle 600, interrupt_cycle] = ([Sleep 3600], Break ManualStop, 600)"
  by code_simp

lemma below_target:
  "\<forall>k \<le> length [profit_cycle 600, undefined_profit_cycle].
     sum_list (map gain (take k [profit_cycle 600, undefined_profit_cycle])) < PROFIT_TARGET"
  by (auto simp: le_Suc_eq gain_def profit_cycle_def undefined_profit_cycle_def PROFIT_TARGET_def)

lemma not_interrupted:
  "\<forall>c \<in> set [profit_cycle 600, undefined_profit_cycle]. \<not> interrupted c"
  by (simp add: profit_cycle_def undefined_profit_cycle_def)

theorem run_bot_5_terminal_witness:
  "run_bot_5 [profit_cycle 600, profit_cycle 500, profit_cycle 1] =
     ([Sleep 3600], Break ProfitTarget, 1100) \<and>
   PROFIT_TARGET \<le> 1100 \<and>
   run_bot_5 [profit_cycle 600, interrupt_cycle] = ([Sleep 3600], Break ManualStop, 600) \<and>
   (\<exists>c \<in> set [profit_cycle 600, interrupt_cycle]. interrupted c) \<and>
   \<not> interrupted (profit_cycle 600) \<and> \<not> interrupted undefined_profit_cycle \<and>
   gain (profit_cycle 600) < PROFIT_TARGET \<and>
   gain (profit_cycle 600) + gain undefined_profit_cycle < PROFIT_TARGET \<and>
   (\<exists>evs'. run_bot_5 [profit_cycle 600, undefined_profit_cycle] =
      (evs', Continue, sum_list (map gain [profit_cycle 600, undefined_profit_cycle]))) \<and>
   \<not> interrupted (profit_cycle 500) \<and> trading_time (profit_cycle 500) \<and>
   portfolio_profit (profit_cycle 500) = Inr 500 \<and> PROFIT_TARGET \<le> 600 + 500 \<and>
   run_bot_5_step (profit_cycle 500) 600 = ([], Break ProfitTarget, 600 + 500)"
proof -
  have c: "\<not> interrupted (profit_cycle 500) \<and> trading_time (profit_cycle 500) \<and>
      portfolio_profit (profit_cycle 500) = Inr 500 \<and> PROFIT_TARGET \<le> 600 + 500"
    by (simp add: profit_cycle_def PROFIT_TARGET_def)
  note t1 = run_bot_5_terminal [of "[profit_cycle 600, profit_cycle 500, profit_cycle 1]"
        "[Sleep 3600]" ProfitTarget 1100 "profit_cycle 500" 500 600]
  note t2 = run_bot_5_terminal [of "[profit_cycle 600, interrupt_cycle]"
        "[Sleep 3600]" ManualStop 600 "profit_cycle 500" 500 600]
  note t3 = run_bot_5_terminal [of "[profit_cycle 600, undefined_profit_cycle]"
        "[]" ManualStop 0 "profit_cycle 500" 500 600]
  from t1 reaches_target have a: "PROFIT_TARGET \<le> 1100" by blast
  from t2 stopped_by_hand have b: "\<exists>c \<in> set [profit_cycle 600, interrupt_cycle]. interrupted c"
    by blast
  from t3 not_interrupted below_target
  have d: "\<exists>evs'. run_bot_5 [profit_cycle 600, undefined_profit_cycle] =
      (evs', Continue, sum_list (map gain [profit_cycle 600, undefined_profit_cycle]))"
    by blast
  from t1 c have e: "run_bot_5_step (profit_cycle 500) 600 = ([], Break ProfitTarget, 600 + 500)"
    by blast
  have f: "\<not> interrupted (profit_cycle 600) \<and> \<not> interrupted undefined_profit_cycle \<and>
      gain (profit_cycle 600) < PROFIT_TARGET \<and>
      gain (profit_cycle 600) + gain undefined_profit_cycle < PROFIT_TARGET"
    by (simp add: gain_def profit_cycle_def undefined_profit_cycle_def PROFIT_TARGET_def)
  from reaches_target a stopped_by_hand b f d c e
  show ?thesis by (intro conjI) (elim conjE, assumption)+
qed

text \<open>
  The loop of 1alpaca\_bot.py (and of the scripts with the same handlers) logs an
  exception, sleeps and continues. The loops of 4ques\_trade.py and 5ques\_trade.py log
  it and continue without sleeping; the loop of 3ques\_trade.py has no handler.
\<close>

lemma main_step_catches:
  "main_step (Raises (Exception e)) u = ([LogError e, Sleep CHECK_INTERVAL], Continue, u)"
  by (simp add: main_step_def)

lemma run_bot_4_step_no_sleep:
  "run_bot_4_step (Raises (Exception e)) u = ([LogError e], Continue, u)"
  by (simp add: run_bot_4_step_def)

lemma run_bot_5_step_no_sleep:
  "\<not> interrupted c \<Longrightarrow> trading_time c \<Longrightarrow> portfolio_profit c = Inl e \<Longrightarrow>
   run_bot_5_step c tot = ([LogError e], Continue, tot)"
  by (simp add: run_bot_5_step_def)

lemma run_bot_3_step_propagates:
  "run_bot_3_step (market_open, Raises x) u = ([], Break (Uncaught x), u)"
  by (simp add: run_bot_3_step_def)


text \<open>
  The loops with the two handlers leave only through \<open>except KeyboardInterrupt\<close>.
\<close>

lemma run_loop_break:
  assumes "\<And>c s evs r s'. step c s = (evs, Break r, s') \<Longrightarrow> P r"
    and "run_loop step cs s = (evs, Break r, s')"
  shows "P r"
  using assms(2)
proof (induction cs arbitrary: s evs)
  case Nil
  then show ?case by simp
next
  case (Cons c cs)
  obtain e1 ctl s1 where st: "step c s = (e1, ctl, s1)"
    by (cases "step c s") auto
  show ?case
  proof (cases ctl)
    case Continue
    obtain e2 ctl2 s2 where rl: "run_loop step cs s1 = (e2, ctl2, s2)"
      by (cases "run_loop step cs s1") auto
    with Cons.prems st Continue have "ctl2 = Break r" "s2 = s'" by auto
    with rl Cons.IH show ?thesis by blast
  next
    case (Break x)
    with Cons.prems st have "x = r" by auto
    with st Break assms(1) show ?thesis by blast
  qed
qed

lemma main_loop_ends_by_hand:
  "run_loop main_step attempts u = (evs, Break r, u') \<Longrightarrow> r = ManualStop"
  by (rule run_loop_break [where step = main_step and P = "\<lambda>r. r = ManualStop"])
    (auto simp: main_step_def split: attempt.splits raised.splits)

lemma run_bot_4_loop_ends_by_hand:
  "run_loop run_bot_4_step attempts u = (evs, Break r, u') \<Longrightarrow> r = ManualStop"
  by (rule run_loop_break [where step = run_bot_4_step and P = "\<lambda>r. r = ManualStop"])
    (auto simp: run_bot_4_step_def split: attempt.splits raised.splits)


text \<open>
  Claim C8 says that every exception in a loop body is caught at the top level, logged,
  and followed by the sleep. In 5ques\_trade.py the undefined
  \<open>calculate_portfolio_profit\<close> raises in every trading cycle: three such cycles leave
  three log lines and no sleep. The handler of 4ques\_trade.py does not sleep either, and
  in 3ques\_trade.py the exception leaves the loop. The handler of 1alpaca\_bot.py sleeps.
\<close>

theorem handler_skips_sleep:
  "run_bot_5 [undefined_profit_cycle, undefined_profit_cycle, undefined_profit_cycle] =
     ([LogError NameError, LogError NameError, LogError NameError], Continue, 0) \<and>
   run_bot_4_step (Raises (Exception APIError)) () = ([LogError APIError], Continue, ()) \<and>
   run_bot_3_step (True, Raises (Exception APIError)) () =
     ([], Break (Uncaught (Exception APIError)), ()) \<and>
   main_step (Raises (Exception APIError)) () = ([LogError APIError, Sleep 300], Continue, ())"
  by code_simp

section \<open>Properties: orders and prices\<close>

text \<open>
  With a failed request, a missing price or a price of zero none of the four order
  functions hands an order to the broker; 4ques\_trade.py and 5ques\_trade.py also skip
  every negative price.
\<close>

lemma no_price_no_order:
  assumes "latest_price api smb = Inl e \<or> latest_price api smb = Inr None \<or>
           latest_price api smb = Inr (Some 0)"
  shows "place_order api smb a sd w = w" and "place_order_3 api smb sd a w = w"
    and "place_order_4 api smb sd a w = w"
    and "place_order_5 api smb sd a w = Inr w \<or> (\<exists>err. place_order_5 api smb sd a w = Inl err)"
  using assms
  by (auto simp: place_order_def place_order_3_def place_order_4_def place_order_5_def
      get_crypto_price_def get_asset_price_def get_symbol_price_4_def get_symbol_price_5_def
      falsy_def then_do_def)

lemma nonpositive_price_no_order:
  assumes "latest_price api smb = Inr (Some p)" and "p \<le> 0"
  shows "place_order_4 api smb sd a w = w" and "place_order_5 api smb sd a w = Inr w"
  using assms
  by (auto simp: place_order_4_def place_order_5_def get_symbol_price_4_def
      get_symbol_price_5_def then_do_def)

text \<open>
  Claim C10 says that no order is computed from or submitted with a price that is zero
  or negative. With the price \<open>-1\<close>, \<open>place_order\<close> of 3ques\_trade.py (which tests
  \<open>price == 0\<close>) and of 1alpaca\_bot.py (which tests \<open>not price\<close>) hand the broker an
  order for \<open>-10\<close> units; 4ques\_trade.py and 5ques\_trade.py (which test
  \<open>price <= 0\<close>) skip it.
\<close>

theorem negative_price_is_ordered:
  "place_order_3 (quote_broker (- 1) True) ''AAPL'' Buy 10 fresh_world =
     fresh_world\<lparr>orders :=
       [\<lparr>symbol = ''AAPL'', order_qty = - 10, side = Buy, time_in_force = GTC\<rparr>]\<rparr> \<and>
   place_order (quote_broker (- 1) True) ''BCH/USD'' 10 Buy fresh_world =
     fresh_world\<lparr>orders :=
       [\<lparr>symbol = ''BCH/USD'', order_qty = - 10, side = Buy, time_in_force = IOC\<rparr>]\<rparr> \<and>
   place_order_4 (quote_broker (- 1) True) ''AAPL'' Buy 10 fresh_world = fresh_world \<and>
   place_order_5 (quote_broker (- 1) True) ''AAPL'' Buy 10 fresh_world = Inr fresh_world"
  by code_simp

end
